theory Spec2Isabelle
  imports Complex_Main "HOL-Library.Multiset"
begin

section \<open>JavaScript values\<close>

subsection \<open>Numbers\<close>

text \<open>
  A JavaScript number is an IEEE 754 binary64 value. A finite one is represented by the
  rational it denotes (\<open>-0\<close> is identified with \<open>0\<close>: none of the operations the
  program uses tells them apart), the three others by constructors of their own.
\<close>

datatype jsnum = Fin rat | PosInf | NegInf | NaN

text \<open>
  \<open>binade n x\<close> is the exponent \<open>e\<close> with \<open>2^e \<le> x < 2^(e+1)\<close> for a positive
  \<open>x\<close>, found in at most \<open>n\<close> halvings or doublings.
\<close>

fun binade :: "nat \<Rightarrow> rat \<Rightarrow> int" where
  "binade 0 x = 0"
| "binade (Suc n) x =
     (if 2 \<le> x then binade n (x / 2) + 1
      else if x < 1 then binade n (x * 2) - 1
      else 0)"

definition round_half_even :: "rat \<Rightarrow> int" where
  "round_half_even x =
     (let n = \<lfloor>x\<rfloor>; d = x - of_int n in
      if d < 1 / 2 then n
      else if 1 / 2 < d then n + 1
      else if even n then n else n + 1)"

text \<open>
  \<open>fl x\<close> rounds the exact result \<open>x\<close> of an arithmetic operation to the nearest
  binary64 value, ties to even: a significand \<open>m\<close> of 53 bits at the exponent \<open>e\<close>
  of \<open>x\<close>, subnormals below \<open>2^-1022\<close>, and an infinity when the rounded value
  \<open>m * 2^(e-52)\<close> reaches \<open>2^1024\<close>.
\<close>

definition fl :: "rat \<Rightarrow> jsnum" where
  "fl x =
     (if x = 0 then Fin 0
      else
        let a = \<bar>x\<bar>;
            e = max (binade 2200 a) (- 1022);
            ulp = 2 powi (e - 52);
            m = round_half_even (a / ulp)
        in if 1023 < e \<or> (e = 1023 \<and> m = 2 ^ 53) then (if x < 0 then NegInf else PosInf)
           else Fin (if x < 0 then - (of_int m * ulp) else of_int m * ulp))"

text \<open>The product \<open>a * b\<close> and the difference \<open>a - b\<close> of two numbers.\<close>

fun num_mul :: "jsnum \<Rightarrow> jsnum \<Rightarrow> jsnum" where
  "num_mul NaN b = NaN"
| "num_mul a NaN = NaN"
| "num_mul (Fin a) (Fin b) = fl (a * b)"
| "num_mul (Fin a) PosInf = (if a = 0 then NaN else if a < 0 then NegInf else PosInf)"
| "num_mul (Fin a) NegInf = (if a = 0 then NaN else if a < 0 then PosInf else NegInf)"
| "num_mul PosInf (Fin b) = (if b = 0 then NaN else if b < 0 then NegInf else PosInf)"
| "num_mul NegInf (Fin b) = (if b = 0 then NaN else if b < 0 then PosInf else NegInf)"
| "num_mul PosInf PosInf = PosInf"
| "num_mul PosInf NegInf = NegInf"
| "num_mul NegInf PosInf = NegInf"
| "num_mul NegInf NegInf = PosInf"

fun num_sub :: "jsnum \<Rightarrow> jsnum \<Rightarrow> jsnum" where
  "num_sub NaN b = NaN"
| "num_sub a NaN = NaN"
| "num_sub (Fin a) (Fin b) = fl (a - b)"
| "num_sub (Fin a) PosInf = NegInf"
| "num_sub (Fin a) NegInf = PosInf"
| "num_sub PosInf PosInf = NaN"
| "num_sub NegInf NegInf = NaN"
| "num_sub PosInf b = PosInf"
| "num_sub NegInf b = NegInf"

text \<open>The comparison \<open>a < b\<close>: false as soon as one side is \<open>NaN\<close>.\<close>

fun num_less :: "jsnum \<Rightarrow> jsnum \<Rightarrow> bool" where
  "num_less NaN b = False"
| "num_less a NaN = False"
| "num_less (Fin a) (Fin b) = (a < b)"
| "num_less (Fin a) PosInf = True"
| "num_less (Fin a) NegInf = False"
| "num_less PosInf b = False"
| "num_less NegInf NegInf = False"
| "num_less NegInf b = True"

text \<open>The decimal digits of a natural number.\<close>

fun dec_digits :: "nat \<Rightarrow> string" where
  "dec_digits n =
     (if n < 10 then [''0123456789'' ! n] else dec_digits (n div 10) @ [''0123456789'' ! (n mod 10)])"

declare dec_digits.simps [simp del]

subsection \<open>Built-in functions taken as parameters\<close>

text \<open>
  The program calls built-ins of the JavaScript runtime whose results are fixed by the
  engine and its locale data, not by this repository. They are parameters of the model:
  \<^item> \<open>finite_toString\<close>: \<open>String(v)\<close> for a finite number \<open>v\<close> (the shortest decimal
    that reads back as \<open>v\<close>);
  \<^item> \<open>localeCompare\<close>: \<open>a.localeCompare(b)\<close>, a negative, zero or positive integer;
  \<^item> \<open>string_toNumber\<close>: \<open>Number(s)\<close> for a string \<open>s\<close>;
  \<^item> \<open>null_property_message\<close>: the message of the \<open>TypeError\<close> raised by reading a
    property of \<open>null\<close>, and \<open>not_a_function_message\<close>: the message of the one raised
    by calling a value that is not a function.
\<close>

record js_builtins =
  finite_toString :: "rat \<Rightarrow> string"
  localeCompare :: "string \<Rightarrow> string \<Rightarrow> int"
  string_toNumber :: "string \<Rightarrow> jsnum"
  null_property_message :: "string \<Rightarrow> string"
  not_a_function_message :: "string \<Rightarrow> string"

definition number_toString :: "js_builtins \<Rightarrow> jsnum \<Rightarrow> string" where
  "number_toString J n =
     (case n of
        NaN \<Rightarrow> ''NaN''
      | PosInf \<Rightarrow> ''Infinity''
      | NegInf \<Rightarrow> ''-Infinity''
      | Fin x \<Rightarrow> finite_toString J x)"

subsection \<open>Primitive values\<close>

text \<open>What reading a field of a row can give: \<open>(r as any)[key]\<close>.\<close>

datatype jsval = Undefined | Null | Bool bool | Num jsnum | Str string

text \<open>\<open>v == null\<close> holds of \<open>null\<close> and of \<open>undefined\<close>.\<close>

fun loosely_null :: "jsval \<Rightarrow> bool" where
  "loosely_null Undefined = True"
| "loosely_null Null = True"
| "loosely_null v = False"

text \<open>\<open>String(v)\<close>.\<close>

fun to_String :: "js_builtins \<Rightarrow> jsval \<Rightarrow> string" where
  "to_String J Undefined = ''undefined''"
| "to_String J Null = ''null''"
| "to_String J (Bool b) = (if b then ''true'' else ''false'')"
| "to_String J (Num n) = number_toString J n"
| "to_String J (Str s) = s"

section \<open>Rows\<close>

text \<open>
  The type \<open>Row\<close> of \<open>page.tsx\<close>. A field of type \<open>number | null\<close> is an option,
  \<open>None\<close> for \<open>null\<close>. The optional field \<open>reason?: string | null\<close> has three
  shapes: the property is absent, it is \<open>null\<close>, or it is a string.
\<close>

datatype 'a optional = Absent | IsNull | Has 'a

record Row =
  tier :: string
  side :: string
  away :: string
  home :: string
  market_spread_home :: "jsnum option"
  fair_home_spread :: "jsnum option"
  required_buy_points :: "jsnum option"
  buy_to_line :: "jsnum option"
  p_current :: "jsnum option"
  p_target :: "jsnum option"
  p_buy :: "jsnum option"
  price_est :: "jsnum option"
  price_max_ok :: "jsnum option"
  ev_ok :: "bool option"
  reason :: "string optional"

definition of_number :: "jsnum option \<Rightarrow> jsval" where
  "of_number v = (case v of None \<Rightarrow> Null | Some n \<Rightarrow> Num n)"

definition of_boolean :: "bool option \<Rightarrow> jsval" where
  "of_boolean v = (case v of None \<Rightarrow> Null | Some b \<Rightarrow> Bool b)"

definition of_optional_string :: "string optional \<Rightarrow> jsval" where
  "of_optional_string v = (case v of Absent \<Rightarrow> Undefined | IsNull \<Rightarrow> Null | Has s \<Rightarrow> Str s)"

text \<open>\<open>(r as any)[k]\<close>: the value of the property named \<open>k\<close>, \<open>undefined\<close> when a row has none.\<close>

definition row_get :: "Row \<Rightarrow> string \<Rightarrow> jsval" where
  "row_get r k =
     (if k = ''tier'' then Str (tier r)
      else if k = ''side'' then Str (side r)
      else if k = ''away'' then Str (away r)
      else if k = ''home'' then Str (home r)
      else if k = ''market_spread_home'' then of_number (market_spread_home r)
      else if k = ''fair_home_spread'' then of_number (fair_home_spread r)
      else if k = ''required_buy_points'' then of_number (required_buy_points r)
      else if k = ''buy_to_line'' then of_number (buy_to_line r)
      else if k = ''p_current'' then of_number (p_current r)
      else if k = ''p_target'' then of_number (p_target r)
      else if k = ''p_buy'' then of_number (p_buy r)
      else if k = ''price_est'' then of_number (price_est r)
      else if k = ''price_max_ok'' then of_number (price_max_ok r)
      else if k = ''ev_ok'' then of_boolean (ev_ok r)
      else if k = ''reason'' then of_optional_string (reason r)
      else Undefined)"

section \<open>Sorting (sortRows of page.tsx)\<close>

datatype sort_dir = Asc | Desc

text \<open>
  The value a row is compared by: the text \<open>away @ home\<close> for the key \<open>matchup\<close>,
  the field named by the key otherwise.
\<close>

definition sort_value :: "string \<Rightarrow> Row \<Rightarrow> jsval" where
  "sort_value sortKey a =
     (if sortKey = ''matchup'' then Str (away a @ '' @ '' @ home a) else row_get a sortKey)"

text \<open>The comparator that \<open>sortRows\<close> passes to \<open>Array.prototype.sort\<close>.\<close>

definition sort_cmp :: "js_builtins \<Rightarrow> string \<Rightarrow> sort_dir \<Rightarrow> Row \<Rightarrow> Row \<Rightarrow> jsnum" where
  "sort_cmp J sortKey sortDir a b =
     (let dir = (if sortDir = Asc then Fin 1 else Fin (- 1));
          va = sort_value sortKey a;
          vb = sort_value sortKey b
      in if loosely_null va then Fin 1
         else if loosely_null vb then Fin (- 1)
         else (case (va, vb) of
                 (Num x, Num y) \<Rightarrow> num_mul (num_sub x y) dir
               | _ \<Rightarrow> num_mul (Fin (of_int (localeCompare J (to_String J va) (to_String J vb)))) dir))"

text \<open>
  \<open>Array.prototype.sort\<close> is a built-in. ECMAScript fixes its result, a stable sort, for
  a consistent comparator, and leaves the order to the engine for any other; the
  comparator above is not consistent as soon as a row has no value under the key (it
  returns \<open>1\<close> for such a row against itself). The model is a stable insertion sort, the
  way the engines sort short arrays: each element, from left to right, goes in front of
  the first element it compares below (\<open>cmp x y < 0\<close>), or to the end.
\<close>

fun insert_by :: "('a \<Rightarrow> 'a \<Rightarrow> jsnum) \<Rightarrow> 'a \<Rightarrow> 'a list \<Rightarrow> 'a list" where
  "insert_by cmp x [] = [x]"
| "insert_by cmp x (y # ys) =
     (if num_less (cmp x y) (Fin 0) then x # y # ys else y # insert_by cmp x ys)"

definition array_sort :: "('a \<Rightarrow> 'a \<Rightarrow> jsnum) \<Rightarrow> 'a list \<Rightarrow> 'a list" where
  "array_sort cmp xs = foldl (\<lambda>acc x. insert_by cmp x acc) [] xs"

text \<open>
  Arrays are objects with identity: a heap is the list of the arrays allocated so far,
  and a reference is an index into it. \<open>[...rows]\<close> allocates a copy; \<open>sort\<close> orders
  the array it is called on in place and returns the reference to it.
\<close>

type_synonym heap = "Row list list"

definition spread_copy :: "heap \<Rightarrow> nat \<Rightarrow> heap \<times> nat" where
  "spread_copy h rows = (h @ [h ! rows], length h)"

definition sort_in_place :: "(Row \<Rightarrow> Row \<Rightarrow> jsnum) \<Rightarrow> heap \<Rightarrow> nat \<Rightarrow> heap \<times> nat" where
  "sort_in_place cmp h arr = (h[arr := array_sort cmp (h ! arr)], arr)"

definition sortRows :: "js_builtins \<Rightarrow> string \<Rightarrow> sort_dir \<Rightarrow> heap \<Rightarrow> nat \<Rightarrow> heap \<times> nat" where
  "sortRows J sortKey sortDir h rows =
     (let (h1, copy) = spread_copy h rows
      in sort_in_place (sort_cmp J sortKey sortDir) h1 copy)"

text \<open>
  \<open>against cmp x y\<close>: both comparisons of \<open>x\<close> and \<open>y\<close> put \<open>y\<close> first. A sort
  that places an element next to another on the strength of a comparison of the two never
  leaves \<open>x\<close> directly in front of such a \<open>y\<close>.
\<close>

definition against :: "('a \<Rightarrow> 'a \<Rightarrow> jsnum) \<Rightarrow> 'a \<Rightarrow> 'a \<Rightarrow> bool" where
  "against cmp x y = (num_less (Fin 0) (cmp x y) \<and> num_less (cmp y x) (Fin 0))"

text \<open>
  \<open>nulls_last P xs\<close>: from the first element of \<open>xs\<close> that satisfies \<open>P\<close> on, every
  element does.
\<close>

fun nulls_last :: "('a \<Rightarrow> bool) \<Rightarrow> 'a list \<Rightarrow> bool" where
  "nulls_last P [] = True"
| "nulls_last P (x # xs) = (if P x then list_all P xs else nulls_last P xs)"

section \<open>CSV export (rowsToCsv of page.tsx)\<close>

text \<open>
  Strings are lists of bytes (UTF-8). The double quote is a single byte that occurs in
  no multi-byte sequence, so replacing it byte by byte is replacing it character by
  character.
\<close>

abbreviation DQUOTE :: char where "DQUOTE \<equiv> CHR 0x22"
abbreviation NEWLINE :: char where "NEWLINE \<equiv> CHR 0x0A"
abbreviation COMMA :: char where "COMMA \<equiv> CHR '',''"

text \<open>\<open>xs.join(sep)\<close> for an array of strings.\<close>

fun join :: "string \<Rightarrow> string list \<Rightarrow> string" where
  "join sep [] = []"
| "join sep [x] = x"
| "join sep (x # y # ys) = x @ sep @ join sep (y # ys)"

text \<open>\<open>s.replaceAll('"', '""')\<close>.\<close>

fun replaceAll_dquote :: "string \<Rightarrow> string" where
  "replaceAll_dquote [] = []"
| "replaceAll_dquote (c # cs) =
     (if c = DQUOTE then DQUOTE # DQUOTE # replaceAll_dquote cs else c # replaceAll_dquote cs)"

definition csv_headers :: "string list" where
  "csv_headers =
     [''tier'', ''side'', ''away'', ''home'', ''market_spread_home'', ''fair_home_spread'',
      ''required_buy_points'', ''buy_to_line'', ''p_current'', ''p_target'', ''p_buy'',
      ''price_est'', ''price_max_ok'', ''ev_ok'']"

text \<open>The local function \<open>esc\<close> of \<open>rowsToCsv\<close>.\<close>

definition esc :: "js_builtins \<Rightarrow> jsval \<Rightarrow> string" where
  "esc J v = (if v = Null \<or> v = Undefined then [] else replaceAll_dquote (to_String J v))"

text \<open>The line of one row: the body of the loop of \<open>rowsToCsv\<close>.\<close>

definition csv_row :: "js_builtins \<Rightarrow> string list \<Rightarrow> Row \<Rightarrow> string" where
  "csv_row J headers r = join [COMMA] (map (\<lambda>h. [DQUOTE] @ esc J (row_get r h) @ [DQUOTE]) headers)"

definition rowsToCsv :: "js_builtins \<Rightarrow> Row list \<Rightarrow> string" where
  "rowsToCsv J rows =
     (let headers = csv_headers;
          lines = foldl (\<lambda>lines r. lines @ [csv_row J headers r]) [join [COMMA] headers] rows
      in join [NEWLINE] lines)"

subsection \<open>A reader of CSV text\<close>

text \<open>
  The reader a file in the format of RFC 4180 is read back with, lines ending in a line
  feed: a field that starts with a double quote runs to the next double quote that is not
  doubled, and a doubled one stands for one; any other field runs to the next comma or
  line feed. \<open>csv_read_from st f r rs s\<close> reads \<open>s\<close> in state \<open>st\<close>, with \<open>f\<close> the
  field, \<open>r\<close> the record and \<open>rs\<close> the records read so far.
\<close>

datatype csv_state = FieldStart | Bare | Quoted | AfterQuote

fun csv_read_from ::
  "csv_state \<Rightarrow> string \<Rightarrow> string list \<Rightarrow> string list list \<Rightarrow> string \<Rightarrow> string list list" where
  "csv_read_from st f r rs [] = rs @ [r @ [f]]"
| "csv_read_from Quoted f r rs (c # cs) =
     (if c = DQUOTE then csv_read_from AfterQuote f r rs cs
      else csv_read_from Quoted (f @ [c]) r rs cs)"
| "csv_read_from AfterQuote f r rs (c # cs) =
     (if c = DQUOTE then csv_read_from Quoted (f @ [DQUOTE]) r rs cs
      else if c = COMMA then csv_read_from FieldStart [] (r @ [f]) rs cs
      else if c = NEWLINE then csv_read_from FieldStart [] [] (rs @ [r @ [f]]) cs
      else csv_read_from Bare (f @ [c]) r rs cs)"
| "csv_read_from st f r rs (c # cs) =
     (if c = DQUOTE \<and> st = FieldStart then csv_read_from Quoted [] r rs cs
      else if c = COMMA then csv_read_from FieldStart [] (r @ [f]) rs cs
      else if c = NEWLINE then csv_read_from FieldStart [] [] (rs @ [r @ [f]]) cs
      else csv_read_from Bare (f @ [c]) r rs cs)"

definition csv_read :: "string \<Rightarrow> string list list" where
  "csv_read s = csv_read_from FieldStart [] [] [] s"

text \<open>The text before the first line feed.\<close>

definition first_line :: "string \<Rightarrow> string" where
  "first_line s = takeWhile (\<lambda>c. c \<noteq> NEWLINE) s"

text \<open>
  What a field of a row stands for in the file: the empty text for \<open>null\<close> and
  \<open>undefined\<close>, \<open>String(v)\<close> for any other value \<open>v\<close>.
\<close>

definition cell_text :: "js_builtins \<Rightarrow> jsval \<Rightarrow> string" where
  "cell_text J v = (if loosely_null v then [] else to_String J v)"

text \<open>A field between double quotes, the fields of a row, and the header line as text.\<close>

definition quoted :: "string \<Rightarrow> string" where
  "quoted s = [DQUOTE] @ replaceAll_dquote s @ [DQUOTE]"

definition row_cells :: "js_builtins \<Rightarrow> Row \<Rightarrow> string list" where
  "row_cells J r = map (\<lambda>h. cell_text J (row_get r h)) csv_headers"

definition header_line :: string where
  "header_line = ''tier,side,away,home,market_spread_home,fair_home_spread,required_buy_points,buy_to_line,p_current,p_target,p_buy,price_est,price_max_ok,ev_ok''"

subsection \<open>Reading the rows back\<close>

text \<open>
  The text that stands for a value in the file, by the declared type of its field: the
  string itself; \<open>true\<close> or \<open>false\<close>; for a number what \<open>String\<close> prints, the
  runtime's digits for a finite one; and the empty text for \<open>null\<close>.
\<close>

definition num_text :: "js_builtins \<Rightarrow> jsnum option \<Rightarrow> string" where
  "num_text J v =
     (case v of
        None \<Rightarrow> []
      | Some (Fin x) \<Rightarrow> finite_toString J x
      | Some PosInf \<Rightarrow> ''Infinity''
      | Some NegInf \<Rightarrow> ''-Infinity''
      | Some NaN \<Rightarrow> ''NaN'')"

definition bool_text :: "bool option \<Rightarrow> string" where
  "bool_text v = (case v of None \<Rightarrow> [] | Some b \<Rightarrow> (if b then ''true'' else ''false''))"

text \<open>The texts of the fourteen fields of a row that the file has a column for.\<close>

definition exported_cells :: "js_builtins \<Rightarrow> Row \<Rightarrow> string list" where
  "exported_cells J r =
     [tier r, side r, away r, home r,
      num_text J (market_spread_home r), num_text J (fair_home_spread r),
      num_text J (required_buy_points r), num_text J (buy_to_line r),
      num_text J (p_current r), num_text J (p_target r), num_text J (p_buy r),
      num_text J (price_est r), num_text J (price_max_ok r), bool_text (ev_ok r)]"

text \<open>
  \<open>reads_back J n\<close>: the text of the number \<open>n\<close> is not empty and \<open>Number\<close> reads
  \<open>n\<close> back from it. JavaScript prints every number so.
\<close>

definition reads_back :: "js_builtins \<Rightarrow> jsnum \<Rightarrow> bool" where
  "reads_back J n =
     (case n of
        Fin x \<Rightarrow> finite_toString J x \<noteq> [] \<and> string_toNumber J (finite_toString J x) = Fin x
      | PosInf \<Rightarrow> string_toNumber J ''Infinity'' = PosInf
      | NegInf \<Rightarrow> string_toNumber J ''-Infinity'' = NegInf
      | NaN \<Rightarrow> string_toNumber J ''NaN'' = NaN)"

text \<open>The values of the nine fields of type \<open>number | null\<close>.\<close>

definition number_values :: "Row \<Rightarrow> jsnum option list" where
  "number_values r =
     [market_spread_home r, fair_home_spread r, required_buy_points r, buy_to_line r,
      p_current r, p_target r, p_buy r, price_est r, price_max_ok r]"

text \<open>
  Reading a record of the file as a row, by the types of the columns: an empty text in a
  column of numbers or booleans is \<open>null\<close>. The file has no column for \<open>reason\<close>.
\<close>

definition read_number :: "js_builtins \<Rightarrow> string \<Rightarrow> jsnum option" where
  "read_number J c = (if c = [] then None else Some (string_toNumber J c))"

definition read_boolean :: "string \<Rightarrow> bool option" where
  "read_boolean c = (if c = ''true'' then Some True else if c = ''false'' then Some False else None)"

definition read_row :: "js_builtins \<Rightarrow> string list \<Rightarrow> Row option" where
  "read_row J cs =
     (if length cs = 14 then
        Some \<lparr> tier = cs ! 0, side = cs ! 1, away = cs ! 2, home = cs ! 3,
               market_spread_home = read_number J (cs ! 4),
               fair_home_spread = read_number J (cs ! 5),
               required_buy_points = read_number J (cs ! 6),
               buy_to_line = read_number J (cs ! 7),
               p_current = read_number J (cs ! 8),
               p_target = read_number J (cs ! 9),
               p_buy = read_number J (cs ! 10),
               price_est = read_number J (cs ! 11),
               price_max_ok = read_number J (cs ! 12),
               ev_ok = read_boolean (cs ! 13),
               reason = Absent \<rparr>
      else None)"

section \<open>Explanations (explain, fmtP, fmtNum, fmtPrice of page.tsx)\<close>

text \<open>
  \<open>x.toFixed(1)\<close>. For \<open>0 \<le> a < 10^21\<close>, \<open>fixed1 a\<close> writes the integer \<open>n\<close>
  nearest to \<open>10 * a\<close> (the larger one of two) with a point before its last digit, and a
  leading zero when \<open>n\<close> has one digit only. \<open>toFixed1\<close> puts the sign in front, and
  gives \<open>String(x)\<close> for the numbers from \<open>10^21\<close> on and for those that are not finite.
\<close>

definition fixed1 :: "rat \<Rightarrow> string" where
  "fixed1 a =
     (let m = dec_digits (nat \<lfloor>a * 10 + 1 / 2\<rfloor>);
          m' = (if length m \<le> 1 then replicate (2 - length m) (CHR ''0'') @ m else m);
          k = length m'
      in take (k - 1) m' @ ''.'' @ drop (k - 1) m')"

definition toFixed1 :: "js_builtins \<Rightarrow> jsnum \<Rightarrow> string" where
  "toFixed1 J n =
     (case n of
        Fin x \<Rightarrow>
          (let s = (if x < 0 then ''-'' else []);
               a = \<bar>x\<bar>
           in if 10 ^ 21 \<le> a then s @ finite_toString J a else s @ fixed1 a)
      | _ \<Rightarrow> number_toString J n)"

text \<open>The signs \<open>U+2265\<close> (greater than or equal) and \<open>U+2014\<close> (em dash), in UTF-8.\<close>

definition GEQ :: string where "GEQ = [CHR 0xE2, CHR 0x89, CHR 0xA5]"
definition EM_DASH :: string where "EM_DASH = [CHR 0xE2, CHR 0x80, CHR 0x94]"

definition fmtP :: "js_builtins \<Rightarrow> jsnum option \<Rightarrow> string" where
  "fmtP J v = (case v of None \<Rightarrow> EM_DASH | Some n \<Rightarrow> toFixed1 J (num_mul n (Fin 100)) @ ''%'')"

definition fmtNum :: "js_builtins \<Rightarrow> jsnum option \<Rightarrow> string" where
  "fmtNum J v = (case v of None \<Rightarrow> EM_DASH | Some n \<Rightarrow> number_toString J n)"

definition fmtPrice :: "js_builtins \<Rightarrow> jsnum option \<Rightarrow> string" where
  "fmtPrice J v =
     (case v of
        None \<Rightarrow> EM_DASH
      | Some n \<Rightarrow> (if num_less (Fin 0) n then ''+'' @ number_toString J n else number_toString J n))"

text \<open>\<open>if (r.reason) return r.reason\<close>: a string is truthy when it is not empty.\<close>

fun truthy_string :: "string optional \<Rightarrow> string option" where
  "truthy_string (Has s) = (if s = [] then None else Some s)"
| "truthy_string v = None"

text \<open>The clause on the prices that the branches \<open>Fire\<close> and \<open>Watch\<close> append.\<close>

definition evPart :: "js_builtins \<Rightarrow> Row \<Rightarrow> string" where
  "evPart J r =
     (let ev = ev_ok r; pe = price_est r; pmax = price_max_ok r
      in if pe \<noteq> None \<and> pmax \<noteq> None \<and> ev \<noteq> None
         then '' EV check at est price '' @ fmtPrice J pe @ '' vs max '' @ fmtPrice J pmax
                @ '': '' @ (if ev = Some True then ''OK'' else ''FAIL'') @ ''.''
         else [])"

definition explain :: "js_builtins \<Rightarrow> Row \<Rightarrow> string" where
  "explain J r =
     (let pc = p_current r; pb = p_buy r; pt = p_target r;
          bp = required_buy_points r
      in if tier r = ''Fire'' then
           (let base = ''Fire because p(now) '' @ fmtP J pc @ '' '' @ GEQ @ '' p(target) ''
                         @ fmtP J pt @ '' (no/cheap buys).''
            in base @ evPart J r)
         else if tier r = ''Watch'' then
           (let base = ''Watch because it needs buys to reach target: buy '' @ fmtNum J bp
                         @ '' pts to '' @ fmtNum J (buy_to_line r) @ ''; p(buy) '' @ fmtP J pb
                         @ '' '' @ GEQ @ '' p(target) '' @ fmtP J pt @ ''.''
            in base @ evPart J r)
         else
           (case truthy_string (reason r) of
              Some s \<Rightarrow> s
            | None \<Rightarrow>
                if (case (pb, pt) of (Some b, Some t) \<Rightarrow> num_less b t | _ \<Rightarrow> False) then
                  ''Garbage because even after buying, p(buy) '' @ fmtP J pb @ '' < p(target) ''
                    @ fmtP J pt @ ''.''
                else ''Garbage because required buy or price violates rules, or value insufficient.''))"

section \<open>Raw plays (mapPlayToRow of lib/wpp.ts)\<close>

text \<open>
  What \<open>res.json()\<close> gives: a JSON value. An object is the list of its properties, the
  binding in force for a name being the first in the list.
\<close>

datatype json =
  JNull | JBool bool | JNum jsnum | JStr string | JArr "json list" | JObj "(string \<times> json) list"

text \<open>
  \<open>get_prop v k\<close> is \<open>v[k]\<close> for a value \<open>v\<close> that is neither \<open>null\<close> nor
  \<open>undefined\<close>, and for the names \<open>k\<close> that this program reads (none of them is a
  property of the prototype of a string, number, boolean or array): the own property of an
  object, \<open>undefined\<close> for any other value. \<open>None\<close> stands for \<open>undefined\<close>.
\<close>

definition get_prop :: "json \<Rightarrow> string \<Rightarrow> json option" where
  "get_prop v k = (case v of JObj fs \<Rightarrow> map_of fs k | _ \<Rightarrow> None)"

fun nullish :: "json option \<Rightarrow> bool" where
  "nullish None = True"
| "nullish (Some JNull) = True"
| "nullish (Some v) = False"

text \<open>\<open>v?.k\<close>, \<open>a ?? b\<close> for a \<open>b\<close> that may be \<open>undefined\<close>, and \<open>a ?? d\<close> for a value \<open>d\<close>.\<close>

definition opt_prop :: "json option \<Rightarrow> string \<Rightarrow> json option" where
  "opt_prop v k = (case v of None \<Rightarrow> None | Some w \<Rightarrow> (if w = JNull then None else get_prop w k))"

definition coalesce_opt :: "json option \<Rightarrow> json option \<Rightarrow> json option" where
  "coalesce_opt a b = (if nullish a then b else a)"

definition coalesce :: "json option \<Rightarrow> json \<Rightarrow> json" where
  "coalesce a d = (case a of None \<Rightarrow> d | Some v \<Rightarrow> (if v = JNull then d else v))"

text \<open>The object that \<open>mapPlayToRow\<close> returns, its properties in the order of the source.\<close>

definition mapPlayToRow :: "json \<Rightarrow> json" where
  "mapPlayToRow p =
     (let game = Some (coalesce (opt_prop (Some p) ''game'') (JObj []));
          required = Some (coalesce (opt_prop (Some p) ''required'') (JObj []));
          pricing = Some (coalesce (opt_prop (Some p) ''pricing'') (JObj []));
          prob = Some (coalesce (opt_prop (Some p) ''prob'') (JObj []));
          market = Some (coalesce (opt_prop (Some p) ''market'') (JObj []));
          fair = Some (coalesce (opt_prop (Some p) ''fair'') (JObj []))
      in JObj
        [(''tier'', coalesce (opt_prop (Some p) ''tier'') (JStr ''Garbage'')),
         (''side'', coalesce (opt_prop (Some p) ''recommendation'') (JStr ''none'')),
         (''away'', coalesce (opt_prop game ''away'') (JStr [])),
         (''home'', coalesce (opt_prop game ''home'') (JStr [])),
         (''market_spread_home'',
            coalesce (coalesce_opt (opt_prop market ''spread_home'')
                        (opt_prop (opt_prop market ''spread'') ''home'')) JNull),
         (''fair_home_spread'', coalesce (opt_prop fair ''home_spread'') JNull),
         (''required_buy_points'', coalesce (opt_prop required ''buy_points'') JNull),
         (''buy_to_line'', coalesce (opt_prop required ''buy_to_line'') JNull),
         (''p_current'', coalesce (opt_prop prob ''current'') JNull),
         (''p_target'', coalesce (opt_prop prob ''target'') JNull),
         (''p_buy'', coalesce (opt_prop prob ''buy'') JNull),
         (''price_est'', coalesce (opt_prop pricing ''final_price'') JNull),
         (''price_max_ok'', coalesce (opt_prop pricing ''max_acceptable_price'') JNull),
         (''ev_ok'', coalesce (opt_prop pricing ''ev_ok'') JNull),
         (''reason'', coalesce (opt_prop (Some p) ''reason'') JNull)])"

text \<open>
  \<open>fetchGarbage\<close> returns these objects as \<open>any[]\<close>, and the page stores them as
  \<open>Row[]\<close>: a cast that nothing checks at run time. \<open>as_Row\<close> is that cast, defined on
  the objects whose properties have the types that \<open>Row\<close> declares.
\<close>

fun is_string :: "json option \<Rightarrow> bool" where
  "is_string (Some (JStr s)) = True"
| "is_string v = False"

fun is_number_or_null :: "json option \<Rightarrow> bool" where
  "is_number_or_null (Some (JNum n)) = True"
| "is_number_or_null (Some JNull) = True"
| "is_number_or_null v = False"

fun is_boolean_or_null :: "json option \<Rightarrow> bool" where
  "is_boolean_or_null (Some (JBool b)) = True"
| "is_boolean_or_null (Some JNull) = True"
| "is_boolean_or_null v = False"

fun is_optional_string_or_null :: "json option \<Rightarrow> bool" where
  "is_optional_string_or_null None = True"
| "is_optional_string_or_null (Some JNull) = True"
| "is_optional_string_or_null (Some (JStr s)) = True"
| "is_optional_string_or_null v = False"

fun string_of :: "json option \<Rightarrow> string" where
  "string_of (Some (JStr s)) = s"
| "string_of v = []"

fun number_of :: "json option \<Rightarrow> jsnum option" where
  "number_of (Some (JNum n)) = Some n"
| "number_of v = None"

fun boolean_of :: "json option \<Rightarrow> bool option" where
  "boolean_of (Some (JBool b)) = Some b"
| "boolean_of v = None"

fun optional_string_of :: "json option \<Rightarrow> string optional" where
  "optional_string_of (Some (JStr s)) = Has s"
| "optional_string_of (Some v) = IsNull"
| "optional_string_of None = Absent"

definition number_fields :: "string list" where
  "number_fields =
     [''market_spread_home'', ''fair_home_spread'', ''required_buy_points'', ''buy_to_line'',
      ''p_current'', ''p_target'', ''p_buy'', ''price_est'', ''price_max_ok'']"

definition has_type_Row :: "json \<Rightarrow> bool" where
  "has_type_Row v =
     (list_all (\<lambda>k. is_string (get_prop v k)) [''tier'', ''side'', ''away'', ''home'']
      \<and> list_all (\<lambda>k. is_number_or_null (get_prop v k)) number_fields
      \<and> is_boolean_or_null (get_prop v ''ev_ok'')
      \<and> is_optional_string_or_null (get_prop v ''reason''))"

definition as_Row :: "json \<Rightarrow> Row option" where
  "as_Row v =
     (if has_type_Row v then
        Some \<lparr> tier = string_of (get_prop v ''tier''), side = string_of (get_prop v ''side''),
               away = string_of (get_prop v ''away''), home = string_of (get_prop v ''home''),
               market_spread_home = number_of (get_prop v ''market_spread_home''),
               fair_home_spread = number_of (get_prop v ''fair_home_spread''),
               required_buy_points = number_of (get_prop v ''required_buy_points''),
               buy_to_line = number_of (get_prop v ''buy_to_line''),
               p_current = number_of (get_prop v ''p_current''),
               p_target = number_of (get_prop v ''p_target''),
               p_buy = number_of (get_prop v ''p_buy''),
               price_est = number_of (get_prop v ''price_est''),
               price_max_ok = number_of (get_prop v ''price_max_ok''),
               ev_ok = boolean_of (get_prop v ''ev_ok''),
               reason = optional_string_of (get_prop v ''reason'') \<rparr>
      else None)"

text \<open>
  The value found in a raw play under a path of property names, \<open>None\<close> when a step of
  the path is missing: what the interface description calls \<open>game.away\<close> or
  \<open>market.spread.home\<close>.
\<close>

fun lookup_path :: "json \<Rightarrow> string list \<Rightarrow> json option" where
  "lookup_path v [] = Some v"
| "lookup_path (JObj fs) (k # ks) = (case map_of fs k of None \<Rightarrow> None | Some w \<Rightarrow> lookup_path w ks)"
| "lookup_path v (k # ks) = None"

section \<open>Fetching (fetchReport and fetchGarbage of lib/wpp.ts)\<close>

text \<open>
  What the network gives for one call of \<open>fetch\<close>: the promise is rejected with an error
  (its message), or it is fulfilled with a response. Of a response the program reads the
  status, the headers by name, and the body through \<open>res.json()\<close>, which is rejected with
  the message of a \<open>SyntaxError\<close> (\<open>Inl\<close>) when the body is not JSON.
\<close>

record response =
  status :: nat
  headers_get :: "string \<Rightarrow> string option"
  body :: "string + json"

datatype fetch_result = Rejected string | Responded response

text \<open>\<open>res.ok\<close>: the status is in the range 200 to 299.\<close>

definition ok :: "response \<Rightarrow> bool" where
  "ok res = (200 \<le> status res \<and> status res \<le> 299)"

text \<open>The diagnostics read from the headers of the report.\<close>

record rate_info =
  limit :: jsnum
  remaining :: jsnum

record cache_info =
  cache_status :: string
  ttl :: jsnum

text \<open>\<open>Number(res.headers.get(name) ?? 0)\<close>.\<close>

definition header_number :: "js_builtins \<Rightarrow> string option \<Rightarrow> jsnum" where
  "header_number J h = (case h of None \<Rightarrow> Fin 0 | Some s \<Rightarrow> string_toNumber J s)"

text \<open>
  The result of \<open>fetchReport\<close> and of \<open>fetchGarbage\<close> for an outcome of their call of
  \<open>fetch\<close>: \<open>Inl\<close> the message of the error thrown, \<open>Inr\<close> the value returned. The
  status of a response is an integer, which \<open>String\<close> prints in decimal.
\<close>

definition fetchReport :: "js_builtins \<Rightarrow> fetch_result \<Rightarrow> string + (json \<times> rate_info \<times> cache_info)" where
  "fetchReport J outcome =
     (case outcome of
        Rejected msg \<Rightarrow> Inl msg
      | Responded res \<Rightarrow>
          if \<not> ok res then Inl (''WPP /report failed: '' @ dec_digits (status res))
          else
            (case body res of
               Inl msg \<Rightarrow> Inl msg
             | Inr data \<Rightarrow>
                 Inr (data,
                      \<lparr> limit = header_number J (headers_get res ''x-ratelimit-limit''),
                        remaining = header_number J (headers_get res ''x-ratelimit-remaining'') \<rparr>,
                      \<lparr> cache_status = (case headers_get res ''x-cache'' of None \<Rightarrow> ''MISS'' | Some s \<Rightarrow> s),
                        ttl = header_number J (headers_get res ''x-cache-ttl'') \<rparr>)))"

definition fetchGarbage :: "js_builtins \<Rightarrow> fetch_result \<Rightarrow> string + json list" where
  "fetchGarbage J outcome =
     (case outcome of
        Rejected msg \<Rightarrow> Inl msg
      | Responded res \<Rightarrow>
          if \<not> ok res then Inl (''WPP /best_edges (garbage) failed: '' @ dec_digits (status res))
          else
            (case body res of
               Inl msg \<Rightarrow> Inl msg
             | Inr data \<Rightarrow>
                 (case coalesce (opt_prop (Some data) ''plays'') (JArr []) of
                    JArr plays \<Rightarrow> Inr (map mapPlayToRow plays)
                  | _ \<Rightarrow> Inl (not_a_function_message J ''plays.map''))))"

section \<open>The refresh cycle (doFetch of page.tsx)\<close>

text \<open>
  \<open>Promise.all\<close> of the two calls is fulfilled with both values when both are fulfilled,
  and rejected with the error of the call that is rejected first. Which of the two settles
  first is for the network to decide: it is an input.
\<close>

datatype settle_order = ReportFirst | GarbageFirst

definition promise_all :: "settle_order \<Rightarrow> string + 'a \<Rightarrow> string + 'b \<Rightarrow> string + ('a \<times> 'b)" where
  "promise_all ord a b =
     (case (a, b) of
        (Inr x, Inr y) \<Rightarrow> Inr (x, y)
      | (Inl e, Inr y) \<Rightarrow> Inl e
      | (Inr x, Inl e) \<Rightarrow> Inl e
      | (Inl e1, Inl e2) \<Rightarrow> Inl (if ord = ReportFirst then e1 else e2))"

text \<open>
  The state of the component \<open>Home\<close>, one field for each \<open>useState\<close> that the refresh
  cycle reads or writes, and the refresh cycles that are in flight: the number of each and
  the parameters (\<open>debouncedTarget\<close>, \<open>metric\<close>) it was started with. \<open>fire\<close> and
  \<open>watch\<close> hold what the report holds under \<open>sections\<close>, as received.
\<close>

datatype metric_t = Spread | Ml | Total

record page =
  metric :: metric_t
  target :: jsnum
  debouncedTarget :: jsnum
  fire :: json
  watch :: json
  garbage :: "json list"
  byTier :: json
  rate :: rate_info
  cache :: cache_info
  err :: "string option"
  loading :: bool
  lastUpdated :: "nat option"
  autoRefresh :: bool
  inflight :: "(nat \<times> jsnum \<times> metric_t) list"
  next_id :: nat

text \<open>
  \<open>doFetch\<close> up to its two calls: it sets \<open>loading\<close>, clears \<open>err\<close> and starts a cycle
  with the parameters of the render it was created in.
\<close>

definition doFetch :: "page \<Rightarrow> page" where
  "doFetch s =
     s\<lparr> loading := True, err := None,
        inflight := inflight s @ [(next_id s, debouncedTarget s, metric s)],
        next_id := Suc (next_id s) \<rparr>"

text \<open>
  The callback passed to \<open>then\<close>. Reading \<open>data.sections\<close> throws when \<open>data\<close> is
  \<open>null\<close>, before any state is set.
\<close>

definition on_fulfilled ::
  "js_builtins \<Rightarrow> nat \<Rightarrow> (json \<times> rate_info \<times> cache_info) \<times> json list \<Rightarrow> page \<Rightarrow> string + page" where
  "on_fulfilled J now result s =
     (case result of
        ((data, rate', cache'), garbageRows) \<Rightarrow>
          if data = JNull then Inl (null_property_message J ''sections'')
          else
            Inr (s\<lparr> fire := coalesce (opt_prop (get_prop data ''sections'') ''fire'') (JArr []),
                    watch := coalesce (opt_prop (get_prop data ''sections'') ''watch'') (JArr []),
                    byTier := coalesce (opt_prop (get_prop data ''summary'') ''by_tier'') (JObj []),
                    rate := rate', cache := cache',
                    garbage := garbageRows,
                    lastUpdated := Some now \<rparr>))"

text \<open>
  The end of a cycle: the callback of \<open>then\<close> or, after a rejection or an error thrown
  in that callback, the one of \<open>catch\<close>; then the one of \<open>finally\<close>.
\<close>

definition settle ::
  "js_builtins \<Rightarrow> nat \<Rightarrow> settle_order \<Rightarrow> fetch_result \<Rightarrow> fetch_result \<Rightarrow> page \<Rightarrow> page" where
  "settle J now ord report_outcome garbage_outcome s =
     (let after =
        (case promise_all ord (fetchReport J report_outcome) (fetchGarbage J garbage_outcome) of
           Inl e \<Rightarrow> s\<lparr> err := Some e \<rparr>
         | Inr result \<Rightarrow>
             (case on_fulfilled J now result s of
                Inl e \<Rightarrow> s\<lparr> err := Some e \<rparr>
              | Inr s' \<Rightarrow> s'))
      in after\<lparr> loading := False \<rparr>)"

text \<open>
  What \<open>Home\<close> renders. While \<open>err\<close> is truthy (a message that is not empty) the
  page is the error message alone; otherwise, while \<open>loading\<close> is set, it is the text
  \<open>Loading\<close> alone; otherwise it is the controls, the diagnostics, the counts and the
  three tables. The view of the tables carries the data they are drawn from: fire, watch,
  garbage, the counts, the rate, the cache and the time of the last update.
\<close>

datatype view =
    ErrorView string
  | LoadingView
  | TablesView json json "json list" json rate_info cache_info "nat option"

definition render :: "page \<Rightarrow> view" where
  "render s =
     (case err s of
        Some (c # cs) \<Rightarrow> ErrorView (c # cs)
      | _ \<Rightarrow>
          if loading s then LoadingView
          else TablesView (fire s) (watch s) (garbage s) (byTier s) (rate s) (cache s)
                 (lastUpdated s))"

text \<open>The controls are on the page only in the view of the tables.\<close>

definition controls_shown :: "page \<Rightarrow> bool" where
  "controls_shown s = (case render s of TablesView f w g b r c l \<Rightarrow> True | _ \<Rightarrow> False)"

text \<open>
  The page is single-threaded: its state changes in the turns of the event loop, one per
  event. The events are the controls (the metric, the slider of the target, the
  auto-refresh box, the button), the timers (the timeout of \<open>useDebounced\<close>, a tick of
  the interval) and the end of a cycle in flight, with the clock and what the network
  gave. A control can be used only while it is on the page; the hooks, and so the timers,
  run in every render, since they stand before the early returns. The interval ticks only
  while \<open>autoRefresh\<close> is set, and a cycle can end only while it is in flight.
\<close>

datatype event =
    SetMetric metric_t
  | SetTarget jsnum
  | DebounceElapsed
  | SetAutoRefresh bool
  | Tick
  | RefreshNow
  | Settled nat nat settle_order fetch_result fetch_result

fun enabled :: "page \<Rightarrow> event \<Rightarrow> bool" where
  "enabled s (SetMetric m) = controls_shown s"
| "enabled s (SetTarget t) = controls_shown s"
| "enabled s DebounceElapsed = True"
| "enabled s (SetAutoRefresh b) = controls_shown s"
| "enabled s Tick = autoRefresh s"
| "enabled s RefreshNow = controls_shown s"
| "enabled s (Settled rid now ord report_outcome garbage_outcome) = (rid \<in> fst ` set (inflight s))"

text \<open>
  What an event does. The effect on \<open>[metric, debouncedTarget]\<close> runs \<open>doFetch\<close>
  whenever one of the two changes; the timeout of \<open>useDebounced\<close> copies the target, and
  changes nothing when the target is the debounced one already.
\<close>

fun effect :: "js_builtins \<Rightarrow> page \<Rightarrow> event \<Rightarrow> page" where
  "effect J s (SetMetric m) = (if m = metric s then s else doFetch (s\<lparr> metric := m \<rparr>))"
| "effect J s (SetTarget t) = s\<lparr> target := t \<rparr>"
| "effect J s DebounceElapsed =
     (if target s = debouncedTarget s then s else doFetch (s\<lparr> debouncedTarget := target s \<rparr>))"
| "effect J s (SetAutoRefresh b) = s\<lparr> autoRefresh := b \<rparr>"
| "effect J s Tick = doFetch s"
| "effect J s RefreshNow = doFetch s"
| "effect J s (Settled rid now ord report_outcome garbage_outcome) =
     settle J now ord report_outcome garbage_outcome
       (s\<lparr> inflight := filter (\<lambda>r. fst r \<noteq> rid) (inflight s) \<rparr>)"

text \<open>One turn: \<open>None\<close> when the event cannot happen in the state.\<close>

definition step :: "js_builtins \<Rightarrow> page \<Rightarrow> event \<Rightarrow> page option" where
  "step J s e = (if enabled s e then Some (effect J s e) else None)"

text \<open>A sequence of turns: \<open>Some\<close> the last state when every event could happen in its turn.\<close>

fun run :: "js_builtins \<Rightarrow> page \<Rightarrow> event list \<Rightarrow> page option" where
  "run J s [] = Some s"
| "run J s (e # es) = (case step J s e of None \<Rightarrow> None | Some s' \<Rightarrow> run J s' es)"

text \<open>A call returned a status that is not a success.\<close>

definition status_failure :: "fetch_result \<Rightarrow> bool" where
  "status_failure outcome = (case outcome of Rejected msg \<Rightarrow> False | Responded res \<Rightarrow> \<not> ok res)"

section \<open>Concrete inputs\<close>

text \<open>
  An instance of the built-ins to run the definitions on. Integers print in decimal, as
  JavaScript prints them (of any other number only the integer part is printed), and the
  strings that read as numbers are the decimal integers and the empty string; strings
  compare by their bytes; the messages are fixed texts.
\<close>

fun bytes_compare :: "string \<Rightarrow> string \<Rightarrow> int" where
  "bytes_compare [] [] = 0"
| "bytes_compare [] (b # bs) = - 1"
| "bytes_compare (a # as) [] = 1"
| "bytes_compare (a # as) (b # bs) =
     (if a = b then bytes_compare as bs
      else if (of_char a :: nat) < of_char b then - 1 else 1)"

fun position_of :: "char \<Rightarrow> string \<Rightarrow> nat option" where
  "position_of c [] = None"
| "position_of c (d # ds) = (if c = d then Some 0 else map_option Suc (position_of c ds))"

definition digit_of :: "char \<Rightarrow> nat option" where
  "digit_of c = position_of c ''0123456789''"

fun read_digits :: "nat \<Rightarrow> string \<Rightarrow> nat option" where
  "read_digits acc [] = Some acc"
| "read_digits acc (c # cs) =
     (case digit_of c of None \<Rightarrow> None | Some d \<Rightarrow> read_digits (10 * acc + d) cs)"

definition read_integer :: "string \<Rightarrow> jsnum" where
  "read_integer s =
     (case s of
        [] \<Rightarrow> Fin 0
      | c # cs \<Rightarrow>
          if c = CHR ''-'' \<and> cs \<noteq> [] then
            (case read_digits 0 cs of None \<Rightarrow> NaN | Some n \<Rightarrow> Fin (- of_nat n))
          else (case read_digits 0 s of None \<Rightarrow> NaN | Some n \<Rightarrow> Fin (of_nat n)))"

definition sample_builtins :: js_builtins where
  "sample_builtins =
     \<lparr> finite_toString = (\<lambda>x. if x < 0 then CHR ''-'' # dec_digits (nat \<lfloor>- x\<rfloor>)
                                else dec_digits (nat \<lfloor>x\<rfloor>)),
       localeCompare = bytes_compare,
       string_toNumber = read_integer,
       null_property_message = (\<lambda>p. ''Cannot read properties of null''),
       not_a_function_message = (\<lambda>f. f @ '' is not a function'') \<rparr>"

definition blank_row :: Row where
  "blank_row =
     \<lparr> tier = ''Garbage'', side = ''none'', away = [], home = [],
       market_spread_home = None, fair_home_spread = None,
       required_buy_points = None, buy_to_line = None,
       p_current = None, p_target = None, p_buy = None,
       price_est = None, price_max_ok = None, ev_ok = None, reason = IsNull \<rparr>"

definition sample_rows :: "Row list" where
  "sample_rows = [blank_row, blank_row\<lparr>p_buy := Some (Fin 1)\<rparr>]"

text \<open>A row whose \<open>away\<close> holds a line feed.\<close>

definition multiline_row :: Row where
  "multiline_row = blank_row\<lparr>away := ''New'' @ [CHR 0x0A] @ ''York''\<rparr>"

definition reasoned_row :: Row where
  "reasoned_row = blank_row\<lparr>reason := Has ''line moved against the pick''\<rparr>"

definition empty_reason_row :: Row where
  "empty_reason_row = blank_row\<lparr>reason := Has []\<rparr>"

text \<open>
  The raw play \<open>{tier:"Fire", recommendation:"home", game:{away:"A",home:"B"},
  prob:{current:0.7,target:0.65}}\<close>: the literals \<open>0.7\<close> and \<open>0.65\<close> denote the
  binary64 values nearest to them.
\<close>

definition example_play :: json where
  "example_play =
     JObj [(''tier'', JStr ''Fire''), (''recommendation'', JStr ''home''),
           (''game'', JObj [(''away'', JStr ''A''), (''home'', JStr ''B'')]),
           (''prob'', JObj [(''current'', JNum (fl (7 / 10))), (''target'', JNum (fl (65 / 100)))])]"

text \<open>The row of defaults.\<close>

definition empty_play_row :: json where
  "empty_play_row =
     JObj [(''tier'', JStr ''Garbage''), (''side'', JStr ''none''), (''away'', JStr []),
           (''home'', JStr []), (''market_spread_home'', JNull), (''fair_home_spread'', JNull),
           (''required_buy_points'', JNull), (''buy_to_line'', JNull), (''p_current'', JNull),
           (''p_target'', JNull), (''p_buy'', JNull), (''price_est'', JNull),
           (''price_max_ok'', JNull), (''ev_ok'', JNull), (''reason'', JNull)]"

text \<open>The state of the page before it is mounted: the initial values of its \<open>useState\<close>.\<close>

definition initial_page :: page where
  "initial_page =
     \<lparr> metric = Spread, target = fl (13 / 20), debouncedTarget = fl (13 / 20),
       fire = JArr [], watch = JArr [], garbage = [], byTier = JObj [],
       rate = \<lparr> limit = Fin 0, remaining = Fin 0 \<rparr>,
       cache = \<lparr> cache_status = ''MISS'', ttl = Fin 0 \<rparr>,
       err = None, loading = True, lastUpdated = None, autoRefresh = True,
       inflight = [], next_id = 0 \<rparr>"

text \<open>
  A backend that answers every request, with one Garbage play that carries the target
  probability asked for; and a response with status 503.
\<close>

definition garbage_play :: "jsnum \<Rightarrow> json" where
  "garbage_play t = JObj [(''tier'', JStr ''Garbage''), (''prob'', JObj [(''target'', JNum t)])]"

definition report_response :: "jsnum \<Rightarrow> fetch_result" where
  "report_response t =
     Responded \<lparr> status = 200, headers_get = (\<lambda>h. None),
       body = Inr (JObj [(''sections'', JObj [(''fire'', JArr []), (''watch'', JArr [])]),
                         (''summary'', JObj [(''by_tier'', JObj [(''Garbage'', JNum (Fin 1))])])]) \<rparr>"

definition edges_response :: "jsnum \<Rightarrow> fetch_result" where
  "edges_response t =
     Responded \<lparr> status = 200, headers_get = (\<lambda>h. None),
       body = Inr (JObj [(''plays'', JArr [garbage_play t])]) \<rparr>"

definition unavailable :: fetch_result where
  "unavailable = Responded \<lparr> status = 503, headers_get = (\<lambda>h. None), body = Inl ''Unexpected token'' \<rparr>"

text \<open>The page once mounted: the effects of the first render have run \<open>doFetch\<close>.\<close>

definition mounted_page :: page where
  "mounted_page = doFetch initial_page"

text \<open>
  The first cycle ends and the tables are shown. The slider goes to 0.60, the value
  settles, and the cycle for 0.60 ends. Then the slider goes to 0.70 and, before that value
  settles, the button starts a cycle, under 0.60; the value settles and starts the cycle
  under 0.70, which ends first; the cycle started under 0.60 ends last.
\<close>

definition stale_trace :: "event list" where
  "stale_trace =
     [Settled 0 10 ReportFirst (report_response (fl (13 / 20))) (edges_response (fl (13 / 20))),
      SetTarget (fl (3 / 5)), DebounceElapsed,
      Settled 1 20 ReportFirst (report_response (fl (3 / 5))) (edges_response (fl (3 / 5))),
      SetTarget (fl (7 / 10)), RefreshNow, DebounceElapsed,
      Settled 3 30 ReportFirst (report_response (fl (7 / 10))) (edges_response (fl (7 / 10))),
      Settled 2 40 ReportFirst (report_response (fl (3 / 5))) (edges_response (fl (3 / 5)))]"

text \<open>
  The first cycle ends and the tables are shown; the button starts a second cycle, whose
  call for the report is rejected by the network before the call for the edges returns
  the status 503.
\<close>

definition failing_trace :: "event list" where
  "failing_trace =
     [Settled 0 10 ReportFirst (report_response (fl (13 / 20))) (edges_response (fl (13 / 20))),
      RefreshNow,
      Settled 1 20 ReportFirst (Rejected ''Failed to fetch'') unavailable]"

text \<open>The states in which the two traces end, and those before their last events.\<close>

definition stale_before :: page where
  "stale_before =
     \<lparr> metric = Spread, target = fl (7 / 10), debouncedTarget = fl (7 / 10),
       fire = JArr [], watch = JArr [], garbage = [mapPlayToRow (garbage_play (fl (7 / 10)))],
       byTier = JObj [(''Garbage'', JNum (Fin 1))],
       rate = \<lparr> limit = Fin 0, remaining = Fin 0 \<rparr>,
       cache = \<lparr> cache_status = ''MISS'', ttl = Fin 0 \<rparr>,
       err = None, loading = False, lastUpdated = Some 30, autoRefresh = True,
       inflight = [(2, fl (3 / 5), Spread)], next_id = 4 \<rparr>"

definition stale_final :: page where
  "stale_final =
     stale_before\<lparr> garbage := [mapPlayToRow (garbage_play (fl (3 / 5)))],
       lastUpdated := Some 40, inflight := [] \<rparr>"

definition failing_final :: page where
  "failing_final =
     \<lparr> metric = Spread, target = fl (13 / 20), debouncedTarget = fl (13 / 20),
       fire = JArr [], watch = JArr [], garbage = [mapPlayToRow (garbage_play (fl (13 / 20)))],
       byTier = JObj [(''Garbage'', JNum (Fin 1))],
       rate = \<lparr> limit = Fin 0, remaining = Fin 0 \<rparr>,
       cache = \<lparr> cache_status = ''MISS'', ttl = Fin 0 \<rparr>,
       err = Some ''Failed to fetch'', loading = False, lastUpdated = Some 10,
       autoRefresh = True, inflight = [], next_id = 2 \<rparr>"

definition failing_before :: page where
  "failing_before =
     failing_final\<lparr> err := None, loading := True, inflight := [(1, fl (13 / 20), Spread)] \<rparr>"

section \<open>Properties of the comparator\<close>

text \<open>
  C10. The comparator is not antisymmetric on rows without a value under the key: for
  every key, direction and rows \<open>a\<close>, \<open>b\<close> whose values under the key are both
  \<open>null\<close> or \<open>undefined\<close>, it returns \<open>1\<close> for \<open>(a, b)\<close> and for \<open>(b, a)\<close>, so the
  order of two such rows is left to the sort.
\<close>

theorem sort_cmp_both_null:
  assumes "loosely_null (sort_value sortKey a)" and "loosely_null (sort_value sortKey b)"
  shows "sort_cmp J sortKey sortDir a b = Fin 1 \<and> sort_cmp J sortKey sortDir b a = Fin 1"
  using assms by (simp add: sort_cmp_def Let_def)

theorem sort_cmp_both_null_witness:
  "loosely_null (sort_value ''p_buy'' blank_row)
   \<and> loosely_null (sort_value ''p_buy'' (blank_row\<lparr>side := ''home''\<rparr>))
   \<and> sort_cmp sample_builtins ''p_buy'' Desc blank_row (blank_row\<lparr>side := ''home''\<rparr>) = Fin 1
   \<and> sort_cmp sample_builtins ''p_buy'' Desc (blank_row\<lparr>side := ''home''\<rparr>) blank_row = Fin 1"
proof -
  have a: "loosely_null (sort_value ''p_buy'' blank_row)"
    by (simp add: sort_value_def row_get_def blank_row_def of_number_def)
  have b: "loosely_null (sort_value ''p_buy'' (blank_row\<lparr>side := ''home''\<rparr>))"
    by (simp add: sort_value_def row_get_def blank_row_def of_number_def)
  from sort_cmp_both_null [OF a b, of sample_builtins Desc] a b show ?thesis
    by simp
qed

section \<open>Properties of sortRows\<close>

lemma mset_insert_by: "mset (insert_by cmp x ys) = add_mset x (mset ys)"
  by (induction ys) auto

lemma mset_foldl_insert_by:
  "mset (foldl (\<lambda>acc x. insert_by cmp x acc) acc xs) = mset acc + mset xs"
  by (induction xs arbitrary: acc) (auto simp: mset_insert_by)

lemma mset_array_sort: "mset (array_sort cmp xs) = mset xs"
  by (simp add: array_sort_def mset_foldl_insert_by)

lemma nulls_last_nth:
  "nulls_last P xs \<Longrightarrow> i < j \<Longrightarrow> j < length xs \<Longrightarrow> P (xs ! i) \<Longrightarrow> P (xs ! j)"
proof (induction xs arbitrary: i j)
  case Nil
  then show ?case by simp
next
  case (Cons x xs)
  show ?case
  proof (cases i)
    case 0
    with Cons.prems show ?thesis
      by (cases j) (auto simp: list_all_length)
  next
    case (Suc i')
    with Cons.prems obtain j' where j: "j = Suc j'" by (cases j) auto
    show ?thesis
    proof (cases "P x")
      case True
      with Cons.prems j show ?thesis by (auto simp: list_all_length)
    next
      case False
      with Cons.prems Suc j Cons.IH [of i' j'] show ?thesis by simp
    qed
  qed
qed

text \<open>
  Of the sort, the next lemmas use only that no two neighbours of its result stand against
  the comparator, which holds for every comparator.
\<close>

lemma num_less_asym: "num_less a (Fin 0) \<Longrightarrow> \<not> num_less (Fin 0) a"
  by (cases a) auto

lemma neighbours_insert_by:
  "successively (\<lambda>x y. \<not> against cmp x y) ys
   \<Longrightarrow> successively (\<lambda>x y. \<not> against cmp x y) (insert_by cmp x ys)"
proof (induction ys)
  case Nil
  then show ?case by simp
next
  case (Cons y ys)
  show ?case
  proof (cases "num_less (cmp x y) (Fin 0)")
    case True
    then have "\<not> against cmp x y"
      by (simp add: against_def num_less_asym)
    with True Cons.prems show ?thesis by simp
  next
    case False
    then have yx: "\<not> against cmp y x"
      by (simp add: against_def)
    from Cons.prems have tl: "successively (\<lambda>x y. \<not> against cmp x y) ys"
      by (cases ys) simp_all
    then have rest: "successively (\<lambda>x y. \<not> against cmp x y) (insert_by cmp x ys)"
      by (rule Cons.IH)
    show ?thesis
    proof (cases ys)
      case Nil
      with False yx show ?thesis by simp
    next
      case zs: (Cons z zs)
      with Cons.prems have yz: "\<not> against cmp y z" by simp
      from zs False yx yz rest show ?thesis by auto
    qed
  qed
qed

lemma neighbours_foldl:
  "successively (\<lambda>x y. \<not> against cmp x y) acc
   \<Longrightarrow> successively (\<lambda>x y. \<not> against cmp x y) (foldl (\<lambda>acc x. insert_by cmp x acc) acc xs)"
  by (induction xs arbitrary: acc) (simp_all add: neighbours_insert_by)

lemma neighbours_array_sort: "successively (\<lambda>x y. \<not> against cmp x y) (array_sort cmp xs)"
  by (simp add: array_sort_def neighbours_foldl)

lemma nulls_last_neighbours:
  assumes "\<And>x y. P x \<Longrightarrow> \<not> P y \<Longrightarrow> against cmp x y"
  shows "successively (\<lambda>x y. \<not> against cmp x y) xs \<Longrightarrow> nulls_last P xs"
proof (induction xs rule: induct_list012)
  case 1
  then show ?case by simp
next
  case (2 x)
  then show ?case by simp
next
  case (3 x y zs)
  from "3.prems" have xy: "\<not> against cmp x y"
    and rest: "successively (\<lambda>x y. \<not> against cmp x y) (y # zs)"
    by simp_all
  from rest "3.IH" have nl: "nulls_last P (y # zs)" by simp
  show ?case
  proof (cases "P x")
    case True
    with xy assms have "P y" by blast
    with True nl show ?thesis by simp
  next
    case False
    with nl show ?thesis by simp
  qed
qed

lemma sort_cmp_against:
  "loosely_null (sort_value k a) \<Longrightarrow> \<not> loosely_null (sort_value k b)
   \<Longrightarrow> against (sort_cmp J k d) a b"
  by (simp add: against_def sort_cmp_def Let_def)

lemma nulls_last_array_sort:
  "nulls_last (\<lambda>r. loosely_null (sort_value k r)) (array_sort (sort_cmp J k d) xs)"
  by (rule nulls_last_neighbours [OF sort_cmp_against neighbours_array_sort])

lemma sortRows_eq:
  "rows < length h \<Longrightarrow>
   sortRows J k d h rows = (h @ [array_sort (sort_cmp J k d) (h ! rows)], length h)"
  by (simp add: sortRows_def spread_copy_def sort_in_place_def nth_append)

text \<open>
  C5. Rows without a value under the sort key come last, in both directions: in the
  array that \<open>sortRows\<close> returns, which holds the rows of the input, a row whose value
  under the key is \<open>null\<close> or \<open>undefined\<close> stands after every row whose value is
  neither. The comparator decides this before it looks at the direction.
\<close>

theorem sortRows_nulls_last:
  assumes "rows < length h"
    and "sortRows J sortKey sortDir h rows = (h', out)"
    and "i < length (h' ! out)" and "j < length (h' ! out)"
    and "loosely_null (sort_value sortKey (h' ! out ! i))"
    and "\<not> loosely_null (sort_value sortKey (h' ! out ! j))"
  shows "mset (h' ! out) = mset (h ! rows) \<and> j < i"
proof -
  let ?s = "array_sort (sort_cmp J sortKey sortDir) (h ! rows)"
  from assms(1,2) have out: "h' ! out = ?s"
    by (auto simp: sortRows_eq)
  have nl: "nulls_last (\<lambda>r. loosely_null (sort_value sortKey r)) ?s"
    by (rule nulls_last_array_sort)
  have "j < i"
  proof (rule ccontr)
    assume "\<not> j < i"
    with assms(5,6) have "i < j" by (cases "i = j") auto
    from nulls_last_nth [OF nl this] assms(4,5,6) out show False by simp
  qed
  with out show ?thesis by (simp add: mset_array_sort)
qed

theorem sortRows_nulls_last_witness:
  "(0::nat) < length [sample_rows]
   \<and> sortRows sample_builtins ''p_buy'' Desc [sample_rows] 0
       = ([sample_rows, rev sample_rows], 1)
   \<and> loosely_null (sort_value ''p_buy'' ([sample_rows, rev sample_rows] ! 1 ! 1))
   \<and> \<not> loosely_null (sort_value ''p_buy'' ([sample_rows, rev sample_rows] ! 1 ! 0))
   \<and> mset ([sample_rows, rev sample_rows] ! 1) = mset ([sample_rows] ! 0)
   \<and> (0::nat) < 1"
proof -
  have a: "(0::nat) < length [sample_rows]" by simp
  have b: "sortRows sample_builtins ''p_buy'' Desc [sample_rows] 0
             = ([sample_rows, rev sample_rows], 1)"
    by (simp add: sortRows_def spread_copy_def sort_in_place_def array_sort_def sort_cmp_def
        sort_value_def row_get_def blank_row_def of_number_def sample_rows_def)
  have c: "(1::nat) < length ([sample_rows, rev sample_rows] ! 1)"
    and d: "(0::nat) < length ([sample_rows, rev sample_rows] ! 1)"
    by (simp_all add: sample_rows_def)
  have e: "loosely_null (sort_value ''p_buy'' ([sample_rows, rev sample_rows] ! 1 ! 1))"
    by (simp add: sort_value_def row_get_def blank_row_def of_number_def sample_rows_def)
  have f: "\<not> loosely_null (sort_value ''p_buy'' ([sample_rows, rev sample_rows] ! 1 ! 0))"
    by (simp add: sort_value_def row_get_def blank_row_def of_number_def sample_rows_def)
  from sortRows_nulls_last [OF a b c d e f] a b e f show ?thesis by simp
qed

text \<open>
  C9. \<open>sortRows\<close> does not mutate its input: every array allocated before the call,
  the input among them, holds the same rows in the same order after it, and the result
  is a new array (a reference that did not exist before) with the rows of the input in
  sorted order.
\<close>

theorem sortRows_frame:
  assumes "rows < length h"
  shows "case sortRows J sortKey sortDir h rows of
           (h', out) \<Rightarrow> take (length h) h' = h \<and> h' ! rows = h ! rows
              \<and> out = length h \<and> out \<noteq> rows
              \<and> h' ! out = array_sort (sort_cmp J sortKey sortDir) (h ! rows)
              \<and> mset (h' ! out) = mset (h ! rows)"
  using assms by (simp add: sortRows_eq nth_append mset_array_sort)

theorem sortRows_frame_witness:
  "(0::nat) < length [sample_rows]
   \<and> (case sortRows sample_builtins ''p_buy'' Asc [sample_rows] 0 of
           (h', out) \<Rightarrow> take (length [sample_rows]) h' = [sample_rows]
              \<and> h' ! 0 = [sample_rows] ! 0
              \<and> out = length [sample_rows] \<and> out \<noteq> 0
              \<and> h' ! out = array_sort (sort_cmp sample_builtins ''p_buy'' Asc) ([sample_rows] ! 0)
              \<and> mset (h' ! out) = mset ([sample_rows] ! 0))"
proof -
  have a: "(0::nat) < length [sample_rows]" by simp
  from sortRows_frame [OF a, of sample_builtins "''p_buy''" Asc] a show ?thesis by simp
qed

section \<open>Properties of rowsToCsv\<close>

lemma foldl_snoc_map: "foldl (\<lambda>acc r. acc @ [g r]) acc rows = acc @ map g rows"
  by (induction rows arbitrary: acc) auto

lemma rowsToCsv_lines:
  "rowsToCsv J rows = join [NEWLINE] (join [COMMA] csv_headers # map (csv_row J csv_headers) rows)"
  by (simp add: rowsToCsv_def Let_def foldl_snoc_map)

lemma read_quoted_body:
  "csv_read_from Quoted f r rs (replaceAll_dquote s @ DQUOTE # rest)
   = csv_read_from AfterQuote (f @ s) r rs rest"
  by (induction s arbitrary: f) auto

lemma read_quoted_cell:
  "csv_read_from FieldStart [] r rs ([DQUOTE] @ replaceAll_dquote s @ [DQUOTE] @ rest)
   = csv_read_from AfterQuote s r rs rest"
  using read_quoted_body [of "[]" r rs s rest] by simp

lemma esc_cell_text: "esc J v = replaceAll_dquote (cell_text J v)"
  by (cases v) (simp_all add: esc_def cell_text_def)


lemma join_Cons: "xs \<noteq> [] \<Longrightarrow> join sep (x # xs) = x @ sep @ join sep xs"
  by (cases xs) simp_all

lemma read_cells_then_newline:
  "cs \<noteq> [] \<Longrightarrow>
   csv_read_from FieldStart [] r rs (join [COMMA] (map quoted cs) @ NEWLINE # rest)
   = csv_read_from FieldStart [] [] (rs @ [r @ cs]) rest"
proof (induction cs arbitrary: r rule: list_nonempty_induct)
  case (single c)
  show ?case
    using read_quoted_cell [of r rs c "NEWLINE # rest"] by (simp add: quoted_def)
next
  case (cons c cs)
  have "csv_read_from FieldStart [] r rs (join [COMMA] (map quoted (c # cs)) @ NEWLINE # rest)
        = csv_read_from FieldStart [] r rs
            ([DQUOTE] @ replaceAll_dquote c @ [DQUOTE]
              @ (COMMA # join [COMMA] (map quoted cs) @ NEWLINE # rest))"
    using cons.hyps by (simp add: join_Cons quoted_def)
  also have "\<dots> = csv_read_from FieldStart [] (r @ [c]) rs
                     (join [COMMA] (map quoted cs) @ NEWLINE # rest)"
    by (simp only: read_quoted_cell) simp
  also have "\<dots> = csv_read_from FieldStart [] [] (rs @ [(r @ [c]) @ cs]) rest"
    by (rule cons.IH)
  finally show ?case by simp
qed

lemma read_cells_then_end:
  "cs \<noteq> [] \<Longrightarrow>
   csv_read_from FieldStart [] r rs (join [COMMA] (map quoted cs)) = rs @ [r @ cs]"
proof (induction cs arbitrary: r rule: list_nonempty_induct)
  case (single c)
  show ?case
    using read_quoted_cell [of r rs c "[]"] by (simp add: quoted_def)
next
  case (cons c cs)
  have "csv_read_from FieldStart [] r rs (join [COMMA] (map quoted (c # cs)))
        = csv_read_from FieldStart [] r rs
            ([DQUOTE] @ replaceAll_dquote c @ [DQUOTE]
              @ (COMMA # join [COMMA] (map quoted cs)))"
    using cons.hyps by (simp add: join_Cons quoted_def)
  also have "\<dots> = csv_read_from FieldStart [] (r @ [c]) rs (join [COMMA] (map quoted cs))"
    by (simp only: read_quoted_cell) simp
  also have "\<dots> = rs @ [(r @ [c]) @ cs]"
    by (rule cons.IH)
  finally show ?case by simp
qed

lemma csv_row_quoted: "csv_row J csv_headers r = join [COMMA] (map quoted (row_cells J r))"
  by (simp add: csv_row_def row_cells_def quoted_def esc_cell_text comp_def)

lemma row_cells_nonempty: "row_cells J r \<noteq> []"
  by (simp add: row_cells_def csv_headers_def)

lemma read_rows:
  "rows \<noteq> [] \<Longrightarrow>
   csv_read_from FieldStart [] [] rs (join [NEWLINE] (map (csv_row J csv_headers) rows))
   = rs @ map (row_cells J) rows"
proof (induction rows arbitrary: rs rule: list_nonempty_induct)
  case (single r)
  show ?case
    using read_cells_then_end [OF row_cells_nonempty, of "[]" rs J r]
    by (simp add: csv_row_quoted)
next
  case (cons r rows)
  have "csv_read_from FieldStart [] [] rs (join [NEWLINE] (map (csv_row J csv_headers) (r # rows)))
        = csv_read_from FieldStart [] [] rs
            (join [COMMA] (map quoted (row_cells J r))
              @ NEWLINE # join [NEWLINE] (map (csv_row J csv_headers) rows))"
    using cons.hyps by (simp add: join_Cons csv_row_quoted)
  also have "\<dots> = csv_read_from FieldStart [] [] (rs @ [row_cells J r])
                     (join [NEWLINE] (map (csv_row J csv_headers) rows))"
    using read_cells_then_newline [OF row_cells_nonempty, of "[]" rs J r] by simp
  also have "\<dots> = (rs @ [row_cells J r]) @ map (row_cells J) rows"
    by (rule cons.IH)
  finally show ?case by simp
qed

lemma join_headers: "join [COMMA] csv_headers = header_line"
  by (simp add: csv_headers_def header_line_def)

lemma read_header_then_newline:
  "csv_read_from FieldStart [] [] [] (header_line @ NEWLINE # rest)
   = csv_read_from FieldStart [] [] [csv_headers] rest"
  by (simp add: csv_headers_def header_line_def)

lemma read_header_then_end:
  "csv_read_from FieldStart [] [] [] header_line = [csv_headers]"
  by (simp add: csv_headers_def header_line_def)

lemma first_line_header: "first_line (header_line @ NEWLINE # rest) = header_line"
  by (simp add: first_line_def header_line_def)

lemma first_line_header_only: "first_line header_line = header_line"
  by (simp add: first_line_def header_line_def)

lemma first_line_rowsToCsv: "first_line (rowsToCsv J rows) = header_line"
proof (cases rows)
  case Nil
  then show ?thesis by (simp add: rowsToCsv_lines join_headers first_line_header_only)
next
  case (Cons r rs)
  then show ?thesis
    by (simp add: rowsToCsv_lines join_Cons join_headers first_line_header del: join.simps)
qed

lemma csv_read_rowsToCsv: "csv_read (rowsToCsv J rows) = csv_headers # map (row_cells J) rows"
proof (cases rows)
  case Nil
  then show ?thesis
    by (simp add: csv_read_def rowsToCsv_lines join_headers read_header_then_end)
next
  case (Cons r rs)
  then have ne: "rows \<noteq> []" by simp
  have "rowsToCsv J rows
        = header_line @ NEWLINE # join [NEWLINE] (map (csv_row J csv_headers) rows)"
    using ne by (simp add: rowsToCsv_lines join_Cons join_headers del: join.simps)
  then show ?thesis
    using read_rows [OF ne, of "[csv_headers]" J]
    by (simp add: csv_read_def read_header_then_newline)
qed


text \<open>
  C2, as stated, fails: the first line of the file lists the column \<open>tier\<close>, in first
  place. Here for the two sample rows.
\<close>

theorem rowsToCsv_header_lists_tier:
  "first_line (rowsToCsv sample_builtins sample_rows) = ''tier,side,away,home,market_spread_home,fair_home_spread,required_buy_points,buy_to_line,p_current,p_target,p_buy,price_est,price_max_ok,ev_ok''
   \<and> hd (hd (csv_read (rowsToCsv sample_builtins sample_rows))) = ''tier''"
  by (simp add: first_line_rowsToCsv csv_read_rowsToCsv header_line_def csv_headers_def)

text \<open>
  C2, amended. For every list of rows, the first line of \<open>rowsToCsv rows\<close> is the header
  row with the fourteen columns tier, side, away, home, market_spread_home,
  fair_home_spread, required_buy_points, buy_to_line, p_current, p_target, p_buy,
  price_est, price_max_ok, ev_ok, in this order: the column tier is part of it.
\<close>

theorem rowsToCsv_header:
  "first_line (rowsToCsv J rows) = ''tier,side,away,home,market_spread_home,fair_home_spread,required_buy_points,buy_to_line,p_current,p_target,p_buy,price_est,price_max_ok,ev_ok''
   \<and> hd (csv_read (rowsToCsv J rows))
       = [''tier'', ''side'', ''away'', ''home'', ''market_spread_home'', ''fair_home_spread'',
          ''required_buy_points'', ''buy_to_line'', ''p_current'', ''p_target'', ''p_buy'',
          ''price_est'', ''price_max_ok'', ''ev_ok'']"
  by (simp add: first_line_rowsToCsv csv_read_rowsToCsv header_line_def csv_headers_def)

lemma read_number_text:
  "\<forall>n\<in>set_option v. reads_back J n \<Longrightarrow> read_number J (num_text J v) = v"
  by (cases v) (auto simp: read_number_def num_text_def reads_back_def split: jsnum.splits)

lemma read_boolean_text: "read_boolean (bool_text v) = v"
  by (cases v) (auto simp: read_boolean_def bool_text_def)

lemma read_row_exported:
  assumes "\<forall>v\<in>set (number_values r). \<forall>n\<in>set_option v. reads_back J n"
  shows "read_row J (exported_cells J r) = Some (r\<lparr>reason := Absent\<rparr>)"
proof -
  from assms have
    "read_number J (num_text J (market_spread_home r)) = market_spread_home r"
    "read_number J (num_text J (fair_home_spread r)) = fair_home_spread r"
    "read_number J (num_text J (required_buy_points r)) = required_buy_points r"
    "read_number J (num_text J (buy_to_line r)) = buy_to_line r"
    "read_number J (num_text J (p_current r)) = p_current r"
    "read_number J (num_text J (p_target r)) = p_target r"
    "read_number J (num_text J (p_buy r)) = p_buy r"
    "read_number J (num_text J (price_est r)) = price_est r"
    "read_number J (num_text J (price_max_ok r)) = price_max_ok r"
    by (simp_all add: number_values_def read_number_text)
  then show ?thesis
    by (cases r) (simp add: read_row_def exported_cells_def read_boolean_text)
qed

lemma num_text_cell: "cell_text J (of_number v) = num_text J v"
  by (cases v)
    (auto simp: cell_text_def of_number_def num_text_def number_toString_def split: jsnum.splits)

lemma bool_text_cell: "cell_text J (of_boolean v) = bool_text v"
  by (cases v) (auto simp: cell_text_def of_boolean_def bool_text_def)

lemma str_text_cell: "cell_text J (Str s) = s"
  by (simp add: cell_text_def)

lemma row_cells_exported: "row_cells J r = exported_cells J r"
  by (simp add: row_cells_def exported_cells_def csv_headers_def row_get_def num_text_cell
      bool_text_cell str_text_cell)

lemma csv_row_exported:
  "csv_row J csv_headers r
   = join [COMMA] (map (\<lambda>c. [DQUOTE] @ replaceAll_dquote c @ [DQUOTE]) (exported_cells J r))"
  by (simp add: csv_row_quoted row_cells_exported quoted_def [abs_def])

lemma dec_digits_1: "dec_digits (Suc 0) = ''1''"
  by code_simp

text \<open>
  C6, as stated, fails. The names on the header line are not wrapped in double quotes; and
  the one row whose \<open>away\<close> holds a line feed gives a text with two line feeds, three
  lines, not two.
\<close>

theorem rowsToCsv_bare_header_and_lines:
  "DQUOTE \<notin> set (first_line (rowsToCsv sample_builtins sample_rows))
   \<and> length (filter (\<lambda>c. c = NEWLINE) (rowsToCsv sample_builtins [multiline_row])) = 2"
proof -
  have "DQUOTE \<notin> set header_line"
    by (simp add: header_line_def)
  moreover have "length (filter (\<lambda>c. c = NEWLINE) (rowsToCsv sample_builtins [multiline_row])) = 2"
    by (simp add: rowsToCsv_def csv_row_def csv_headers_def row_get_def esc_def
        multiline_row_def blank_row_def of_number_def of_boolean_def)
  ultimately show ?thesis
    by (simp add: first_line_rowsToCsv)
qed

text \<open>
  C6, amended. For every list of rows, \<open>rowsToCsv rows\<close> is the header line, its
  fourteen names written bare, followed by one line per row, joined with line feeds; on
  the line of a row every field stands between double quotes, with each double quote
  inside it doubled, and a field that is \<open>null\<close> is the empty text. A reader of CSV
  finds the header and exactly one record per row (a line feed inside a field belongs to
  the field), whose fields are, unchanged, the texts of the row's values: the strings
  themselves, \<open>true\<close> or \<open>false\<close>, and \<open>String(v)\<close> for a number \<open>v\<close>. For rows
  whose numbers \<open>Number\<close> reads back from these texts, as JavaScript guarantees, reading
  the records by the types of the columns gives the rows back, without their reason.
\<close>

theorem rowsToCsv_roundtrip:
  assumes "\<forall>r\<in>set rows. \<forall>v\<in>set (number_values r). \<forall>n\<in>set_option v. reads_back J n"
  shows "rowsToCsv J rows
     = join [NEWLINE]
         (join [COMMA] csv_headers
          # map (\<lambda>r. join [COMMA]
                   (map (\<lambda>c. [DQUOTE] @ replaceAll_dquote c @ [DQUOTE]) (exported_cells J r)))
              rows)
   \<and> csv_read (rowsToCsv J rows) = csv_headers # map (exported_cells J) rows
   \<and> length (csv_read (rowsToCsv J rows)) = Suc (length rows)
   \<and> map (read_row J) (tl (csv_read (rowsToCsv J rows)))
       = map (\<lambda>r. Some (r\<lparr>reason := Absent\<rparr>)) rows"
proof -
  have a: "csv_row J csv_headers
        = (\<lambda>r. join [COMMA]
                 (map (\<lambda>c. [DQUOTE] @ replaceAll_dquote c @ [DQUOTE]) (exported_cells J r)))"
    by (rule ext) (rule csv_row_exported)
  have b: "row_cells J = exported_cells J"
    by (rule ext) (rule row_cells_exported)
  have c: "rowsToCsv J rows
        = join [NEWLINE] (join [COMMA] csv_headers # map (csv_row J csv_headers) rows)"
    by (rule rowsToCsv_lines)
  have d: "csv_read (rowsToCsv J rows) = csv_headers # map (exported_cells J) rows"
    unfolding b [symmetric] by (rule csv_read_rowsToCsv)
  have e: "length (csv_read (rowsToCsv J rows)) = Suc (length rows)"
    by (simp only: d list.size length_map)
  have f: "map (read_row J) (tl (csv_read (rowsToCsv J rows)))
        = map (\<lambda>r. Some (r\<lparr>reason := Absent\<rparr>)) rows"
    unfolding d using assms by (simp add: read_row_exported)
  from c d e f show ?thesis
    unfolding a by (intro conjI)
qed

theorem rowsToCsv_roundtrip_witness:
  "list_all (\<lambda>r. list_all (\<lambda>v. list_all (reads_back sample_builtins) (case v of None \<Rightarrow> [] | Some n \<Rightarrow> [n]))
                 (number_values r))
      sample_rows
   \<and> csv_read (rowsToCsv sample_builtins sample_rows)
       = csv_headers # map (exported_cells sample_builtins) sample_rows
   \<and> exported_cells sample_builtins (sample_rows ! 1)
       = [''Garbage'', ''none'', [], [], [], [], [], [], [], [], ''1'', [], [], []]
   \<and> map (read_row sample_builtins) (tl (csv_read (rowsToCsv sample_builtins sample_rows)))
       = map (\<lambda>r. Some (r\<lparr>reason := Absent\<rparr>)) sample_rows"
proof -
  have a0: "list_all (\<lambda>r. list_all (\<lambda>v. list_all (reads_back sample_builtins) (case v of None \<Rightarrow> [] | Some n \<Rightarrow> [n]))
                 (number_values r))
      sample_rows"
    by (simp add: sample_rows_def blank_row_def number_values_def reads_back_def
        sample_builtins_def dec_digits_1 read_integer_def digit_of_def)
  have a: "\<forall>r\<in>set sample_rows. \<forall>v\<in>set (number_values r). \<forall>n\<in>set_option v.
      reads_back sample_builtins n"
    by (simp add: sample_rows_def blank_row_def number_values_def reads_back_def
        sample_builtins_def dec_digits_1 read_integer_def digit_of_def)
  have b: "exported_cells sample_builtins (sample_rows ! 1)
       = [''Garbage'', ''none'', [], [], [], [], [], [], [], [], ''1'', [], [], []]"
    by (simp add: sample_rows_def blank_row_def exported_cells_def num_text_def bool_text_def
        sample_builtins_def dec_digits_1)
  from rowsToCsv_roundtrip [OF a]
  have c: "csv_read (rowsToCsv sample_builtins sample_rows)
       = csv_headers # map (exported_cells sample_builtins) sample_rows"
    and d: "map (read_row sample_builtins) (tl (csv_read (rowsToCsv sample_builtins sample_rows)))
       = map (\<lambda>r. Some (r\<lparr>reason := Absent\<rparr>)) sample_rows"
    by blast+
  from a0 b c d show ?thesis
    by (intro conjI)
qed

section \<open>Properties of explain\<close>

lemma explain_nonempty: "explain J r \<noteq> []"
  by (auto simp: explain_def Let_def
      split: option.splits optional.splits if_splits elim: truthy_string.elims)

lemma explain_reason:
  "tier r = ''Garbage'' \<Longrightarrow> reason r = Has s \<Longrightarrow> s \<noteq> [] \<Longrightarrow> explain J r = s"
  by (simp add: explain_def)

text \<open>
  C4, as stated, fails for a row of tier Garbage whose reason is set to the empty string:
  \<open>explain\<close> tests \<open>if (r.reason)\<close>, the empty string is falsy, and the result is the
  generic text, not the reason.
\<close>

theorem explain_empty_reason:
  "tier empty_reason_row = ''Garbage'' \<and> reason empty_reason_row = Has []
   \<and> explain sample_builtins empty_reason_row
       = ''Garbage because required buy or price violates rules, or value insufficient.''"
  by (simp add: explain_def empty_reason_row_def blank_row_def)

text \<open>
  C4, amended. For every row, \<open>explain row\<close> is a non-empty string; and for every row
  whose tier is Garbage and whose reason is set to a non-empty string, \<open>explain row\<close> is
  exactly that reason, unchanged.
\<close>

theorem explain_nonempty_and_reason:
  "explain J r \<noteq> []
   \<and> (tier r = ''Garbage'' \<longrightarrow> reason r = Has s \<longrightarrow> s \<noteq> [] \<longrightarrow> explain J r = s)"
  by (simp add: explain_nonempty explain_reason)

theorem explain_nonempty_and_reason_witness:
  "explain sample_builtins reasoned_row \<noteq> []
   \<and> tier reasoned_row = ''Garbage''
   \<and> reason reasoned_row = Has ''line moved against the pick''
   \<and> ''line moved against the pick'' \<noteq> []
   \<and> explain sample_builtins reasoned_row = ''line moved against the pick''"
proof -
  have a: "tier reasoned_row = ''Garbage''"
    and b: "reason reasoned_row = Has ''line moved against the pick''"
    by (simp_all add: reasoned_row_def blank_row_def)
  from explain_nonempty_and_reason [of sample_builtins reasoned_row "''line moved against the pick''"] a b
  show ?thesis by simp
qed

section \<open>Properties of mapPlayToRow\<close>

lemma coalesce_chain:
  "coalesce (opt_prop (Some (coalesce (opt_prop (Some p) a) (JObj []))) b) d
   = coalesce (lookup_path p [a, b]) d"
  by (cases p) (auto simp: coalesce_def opt_prop_def get_prop_def split: option.splits json.splits)

lemma coalesce_top: "coalesce (opt_prop (Some p) a) d = coalesce (lookup_path p [a]) d"
  by (cases p) (auto simp: coalesce_def opt_prop_def get_prop_def split: option.splits json.splits)


lemma nullish_iff: "nullish a = (a = None \<or> a = Some JNull)"
  by (cases a rule: nullish.cases) simp_all

lemma spread_chain:
  "coalesce (coalesce_opt (opt_prop (Some (coalesce (opt_prop (Some p) m) (JObj []))) a)
               (opt_prop (opt_prop (Some (coalesce (opt_prop (Some p) m) (JObj []))) b) c)) JNull
   = coalesce (lookup_path p [m, a]) (coalesce (lookup_path p [m, b, c]) JNull)"
proof (cases "lookup_path p [m]")
  case None
  then show ?thesis
    by (cases p) (auto simp: coalesce_def coalesce_opt_def opt_prop_def get_prop_def nullish_iff
        split: option.splits json.splits)
next
  case (Some g)
  then obtain fs where p: "p = JObj fs" and g: "map_of fs m = Some g"
    by (cases p) (auto split: option.splits)
  show ?thesis
  proof (cases g)
    case (JObj gs)
    show ?thesis
    proof (cases "map_of gs b")
      case None
      with p g JObj show ?thesis
        by (cases "map_of gs a")
          (auto simp: coalesce_def coalesce_opt_def opt_prop_def get_prop_def nullish_iff)
    next
      case (Some h)
      with p g JObj show ?thesis
        by (cases "map_of gs a"; cases h)
          (auto simp: coalesce_def coalesce_opt_def opt_prop_def get_prop_def nullish_iff
            split: option.splits)
    qed
  qed (use p g in \<open>auto simp: coalesce_def coalesce_opt_def opt_prop_def get_prop_def nullish_iff\<close>)
qed

lemma mapPlayToRow_empty: "mapPlayToRow (JObj []) = empty_play_row"
  by (simp add: mapPlayToRow_def empty_play_row_def opt_prop_def get_prop_def coalesce_def
      coalesce_opt_def)

text \<open>
  C3, as stated, fails: for the empty raw play the fields \<open>side\<close>, \<open>away\<close> and
  \<open>home\<close> of the row are not \<open>null\<close> but the defaults \<open>"none"\<close>, \<open>""\<close> and
  \<open>""\<close>.
\<close>

theorem mapPlayToRow_empty_defaults:
  "get_prop (mapPlayToRow (JObj [])) ''side'' = Some (JStr ''none'')
   \<and> get_prop (mapPlayToRow (JObj [])) ''away'' = Some (JStr [])
   \<and> get_prop (mapPlayToRow (JObj [])) ''home'' = Some (JStr [])"
  by (simp add: mapPlayToRow_empty empty_play_row_def get_prop_def)

text \<open>
  C3, amended. \<open>mapPlayToRow\<close> gives each field the value found under its source path
  when that value is neither missing nor \<open>null\<close>, and otherwise \<open>null\<close> for every field
  but \<open>tier\<close>, \<open>side\<close>, \<open>away\<close> and \<open>home\<close>, which default to \<open>"Garbage"\<close>,
  \<open>"none"\<close>, \<open>""\<close> and \<open>""\<close>; the market spread is \<open>market.spread_home\<close>, then
  \<open>market.spread.home\<close>, then \<open>null\<close>. In particular the row of the empty raw play has
  these four defaults and \<open>null\<close> in every other field.
\<close>

theorem mapPlayToRow_fields:
  "get_prop (mapPlayToRow p) ''tier'' = Some (coalesce (lookup_path p [''tier'']) (JStr ''Garbage''))
   \<and> get_prop (mapPlayToRow p) ''side''
       = Some (coalesce (lookup_path p [''recommendation'']) (JStr ''none''))
   \<and> get_prop (mapPlayToRow p) ''away'' = Some (coalesce (lookup_path p [''game'', ''away'']) (JStr []))
   \<and> get_prop (mapPlayToRow p) ''home'' = Some (coalesce (lookup_path p [''game'', ''home'']) (JStr []))
   \<and> get_prop (mapPlayToRow p) ''market_spread_home''
       = Some (coalesce (lookup_path p [''market'', ''spread_home''])
                (coalesce (lookup_path p [''market'', ''spread'', ''home'']) JNull))
   \<and> get_prop (mapPlayToRow p) ''fair_home_spread''
       = Some (coalesce (lookup_path p [''fair'', ''home_spread'']) JNull)
   \<and> get_prop (mapPlayToRow p) ''required_buy_points''
       = Some (coalesce (lookup_path p [''required'', ''buy_points'']) JNull)
   \<and> get_prop (mapPlayToRow p) ''buy_to_line''
       = Some (coalesce (lookup_path p [''required'', ''buy_to_line'']) JNull)
   \<and> get_prop (mapPlayToRow p) ''p_current'' = Some (coalesce (lookup_path p [''prob'', ''current'']) JNull)
   \<and> get_prop (mapPlayToRow p) ''p_target'' = Some (coalesce (lookup_path p [''prob'', ''target'']) JNull)
   \<and> get_prop (mapPlayToRow p) ''p_buy'' = Some (coalesce (lookup_path p [''prob'', ''buy'']) JNull)
   \<and> get_prop (mapPlayToRow p) ''price_est''
       = Some (coalesce (lookup_path p [''pricing'', ''final_price'']) JNull)
   \<and> get_prop (mapPlayToRow p) ''price_max_ok''
       = Some (coalesce (lookup_path p [''pricing'', ''max_acceptable_price'']) JNull)
   \<and> get_prop (mapPlayToRow p) ''ev_ok'' = Some (coalesce (lookup_path p [''pricing'', ''ev_ok'']) JNull)
   \<and> get_prop (mapPlayToRow p) ''reason'' = Some (coalesce (lookup_path p [''reason'']) JNull)
   \<and> mapPlayToRow (JObj []) = empty_play_row"
proof -
  have top: "get_prop (mapPlayToRow p) ''tier'' = Some (coalesce (lookup_path p [''tier'']) (JStr ''Garbage''))
      \<and> get_prop (mapPlayToRow p) ''side''
          = Some (coalesce (lookup_path p [''recommendation'']) (JStr ''none''))
      \<and> get_prop (mapPlayToRow p) ''reason'' = Some (coalesce (lookup_path p [''reason'']) JNull)"
    by (simp add: mapPlayToRow_def Let_def get_prop_def coalesce_top del: lookup_path.simps)
  show ?thesis
    unfolding mapPlayToRow_empty
    using top
    by (simp add: mapPlayToRow_def Let_def get_prop_def coalesce_chain spread_chain
        del: lookup_path.simps)
qed


section \<open>The worked example\<close>

text \<open>
  In binary64 the products \<open>0.7 * 100\<close> and \<open>0.65 * 100\<close> round to \<open>70\<close> and
  \<open>65\<close> (\<open>13 / 20\<close> is \<open>65 / 100\<close>).
\<close>

lemma percent_of_0_7: "num_mul (fl (7 / 10)) (Fin 100) = Fin 70"
  by code_simp

lemma percent_of_0_65: "num_mul (fl (13 / 20)) (Fin 100) = Fin 65"
  by code_simp

lemma fixed1_of_70: "fixed1 70 = ''70.0''"
  by code_simp

lemma fixed1_of_65: "fixed1 65 = ''65.0''"
  by code_simp

lemma example_mapped:
  "mapPlayToRow example_play =
     JObj [(''tier'', JStr ''Fire''), (''side'', JStr ''home''), (''away'', JStr ''A''),
           (''home'', JStr ''B''), (''market_spread_home'', JNull), (''fair_home_spread'', JNull),
           (''required_buy_points'', JNull), (''buy_to_line'', JNull),
           (''p_current'', JNum (fl (7 / 10))), (''p_target'', JNum (fl (65 / 100))),
           (''p_buy'', JNull), (''price_est'', JNull), (''price_max_ok'', JNull),
           (''ev_ok'', JNull), (''reason'', JNull)]"
  by (simp add: mapPlayToRow_def example_play_def opt_prop_def get_prop_def coalesce_def
      coalesce_opt_def)

lemma example_row:
  "as_Row (mapPlayToRow example_play) =
     Some \<lparr> tier = ''Fire'', side = ''home'', away = ''A'', home = ''B'',
            market_spread_home = None, fair_home_spread = None,
            required_buy_points = None, buy_to_line = None,
            p_current = Some (fl (7 / 10)), p_target = Some (fl (65 / 100)), p_buy = None,
            price_est = None, price_max_ok = None, ev_ok = None, reason = IsNull \<rparr>"
  by (simp add: example_mapped as_Row_def has_type_Row_def number_fields_def get_prop_def)

text \<open>
  C8. The raw play \<open>{tier:"Fire", recommendation:"home", game:{away:"A",home:"B"},
  prob:{current:0.7,target:0.65}}\<close> is normalized to a row with \<open>p_current = 0.7\<close>,
  \<open>p_target = 0.65\<close> and both prices unknown, and \<open>explain\<close> on that row is exactly
  \<open>Fire because p(now) 70.0% \<ge> p(target) 65.0% (no/cheap buys).\<close>, with no clause on
  the prices.
\<close>

theorem example_play_explained:
  "map_option p_current (as_Row (mapPlayToRow example_play)) = Some (Some (fl (7 / 10)))
   \<and> map_option p_target (as_Row (mapPlayToRow example_play)) = Some (Some (fl (65 / 100)))
   \<and> map_option price_est (as_Row (mapPlayToRow example_play)) = Some None
   \<and> map_option price_max_ok (as_Row (mapPlayToRow example_play)) = Some None
   \<and> map_option (explain J) (as_Row (mapPlayToRow example_play))
       = Some (''Fire because p(now) 70.0% '' @ GEQ @ '' p(target) 65.0% (no/cheap buys).'')"
  by (simp add: example_row explain_def evPart_def fmtP_def toFixed1_def
      percent_of_0_7 percent_of_0_65 fixed1_of_70 fixed1_of_65)

section \<open>Properties of the refresh cycle\<close>

lemma fl_values:
  "fl (13 / 20) = Fin (5854679515581645 / 9007199254740992)"
  "fl (3 / 5) = Fin (5404319552844595 / 9007199254740992)"
  "fl (7 / 10) = Fin (3152519739159347 / 4503599627370496)"
  by code_simp+

lemma fetchReport_ok: "fetchReport J (report_response t) =
  Inr (JObj [(''sections'', JObj [(''fire'', JArr []), (''watch'', JArr [])]),
                         (''summary'', JObj [(''by_tier'', JObj [(''Garbage'', JNum (Fin 1))])])],
       \<lparr> limit = Fin 0, remaining = Fin 0 \<rparr>, \<lparr> cache_status = ''MISS'', ttl = Fin 0 \<rparr>)"
  by (simp add: fetchReport_def report_response_def ok_def header_number_def)

lemma fetchGarbage_ok: "fetchGarbage J (edges_response t) = Inr [mapPlayToRow (garbage_play t)]"
  by (simp add: fetchGarbage_def edges_response_def ok_def coalesce_def opt_prop_def get_prop_def)

lemma settle_ok:
  "settle J now ord (report_response t) (edges_response t) s
   = s\<lparr> fire := JArr [], watch := JArr [],
        byTier := JObj [(''Garbage'', JNum (Fin 1))],
        rate := \<lparr> limit = Fin 0, remaining = Fin 0 \<rparr>,
        cache := \<lparr> cache_status = ''MISS'', ttl = Fin 0 \<rparr>,
        garbage := [mapPlayToRow (garbage_play t)],
        lastUpdated := Some now, loading := False \<rparr>"
  by (simp add: settle_def fetchReport_ok fetchGarbage_ok promise_all_def on_fulfilled_def
      coalesce_def opt_prop_def get_prop_def)

lemma settle_rejected:
  assumes "promise_all ord (fetchReport J rep) (fetchGarbage J gar) = Inl e"
  shows "settle J now ord rep gar s = s\<lparr> err := Some e, loading := False \<rparr>"
  using assms by (simp add: settle_def)

lemma fetchReport_status_failure:
  "rep = Responded r \<Longrightarrow> \<not> ok r
   \<Longrightarrow> fetchReport J rep = Inl (''WPP /report failed: '' @ dec_digits (status r))"
  by (simp add: fetchReport_def)

lemma fetchGarbage_status_failure:
  "gar = Responded r \<Longrightarrow> \<not> ok r
   \<Longrightarrow> fetchGarbage J gar = Inl (''WPP /best_edges (garbage) failed: '' @ dec_digits (status r))"
  by (simp add: fetchGarbage_def)

lemma status_failure_report: "status_failure rep \<Longrightarrow> isl (fetchReport J rep)"
  by (cases rep) (simp_all add: status_failure_def fetchReport_def)

lemma status_failure_garbage: "status_failure gar \<Longrightarrow> isl (fetchGarbage J gar)"
  by (cases gar) (simp_all add: status_failure_def fetchGarbage_def)

lemma promise_all_rejects:
  "isl a \<or> isl b \<Longrightarrow> \<exists>e. promise_all ord a b = Inl e"
  by (cases a; cases b) (simp_all add: promise_all_def)

lemma promise_all_first:
  "a = Inl e \<Longrightarrow> \<not> isl b \<or> ord = ReportFirst \<Longrightarrow> promise_all ord a b = Inl e"
  by (cases b) (auto simp: promise_all_def)

lemma promise_all_second:
  "b = Inl e \<Longrightarrow> \<not> isl a \<or> ord = GarbageFirst \<Longrightarrow> promise_all ord a b = Inl e"
  by (cases a) (auto simp: promise_all_def)

lemma run_snoc:
  "run J s (es @ [e]) = (case run J s es of None \<Rightarrow> None | Some s' \<Rightarrow> step J s' e)"
  by (induction es arbitrary: s) (auto split: option.splits)

lemma stale_run_before:
  "run sample_builtins mounted_page (butlast stale_trace) = Some stale_before"
  by (simp add: stale_trace_def mounted_page_def initial_page_def doFetch_def step_def
      render_def controls_shown_def settle_ok fl_values stale_before_def)

lemma stale_run_final: "run sample_builtins mounted_page stale_trace = Some stale_final"
  by (simp add: stale_trace_def mounted_page_def initial_page_def doFetch_def step_def
      render_def controls_shown_def settle_ok fl_values stale_before_def stale_final_def)

lemma rows_differ:
  "mapPlayToRow (garbage_play (fl (3 / 5))) \<noteq> mapPlayToRow (garbage_play (fl (7 / 10)))"
  by (simp add: fl_values mapPlayToRow_def garbage_play_def coalesce_def coalesce_opt_def
      opt_prop_def get_prop_def)

lemma settle_fulfilled:
  assumes "fetchReport J rep = Inr (data, rt, ch)" and "fetchGarbage J gar = Inr rows"
    and "data \<noteq> JNull"
  shows "settle J now ord rep gar s
     = s\<lparr> fire := coalesce (opt_prop (get_prop data ''sections'') ''fire'') (JArr []),
          watch := coalesce (opt_prop (get_prop data ''sections'') ''watch'') (JArr []),
          byTier := coalesce (opt_prop (get_prop data ''summary'') ''by_tier'') (JObj []),
          rate := rt, cache := ch, garbage := rows, lastUpdated := Some now,
          loading := False \<rparr>"
  using assms by (simp add: settle_def promise_all_def on_fulfilled_def)

lemma settle_network_failure:
  "settle J now ReportFirst (Rejected msg) unavailable s = s\<lparr> err := Some msg, loading := False \<rparr>"
  by (simp add: settle_def promise_all_def fetchReport_def fetchGarbage_def unavailable_def
      ok_def)

lemma failing_run: "run sample_builtins mounted_page failing_trace = Some failing_final"
  by (simp add: failing_trace_def mounted_page_def initial_page_def doFetch_def step_def
      render_def controls_shown_def settle_ok settle_network_failure fl_values
      failing_final_def)

lemma shown_before_failing:
  "run sample_builtins mounted_page (butlast (butlast failing_trace))
   = Some (failing_final\<lparr> err := None, next_id := 1 \<rparr>)"
  by (simp add: failing_trace_def mounted_page_def initial_page_def doFetch_def step_def
      settle_ok failing_final_def)

lemma failing_run_before:
  "run sample_builtins mounted_page (butlast failing_trace) = Some failing_before"
  by (simp add: failing_trace_def mounted_page_def initial_page_def doFetch_def step_def
      render_def controls_shown_def settle_ok fl_values failing_final_def failing_before_def)

text \<open>
  C1, as stated, fails. The tables show the result for 0.60. The slider goes to 0.70 and,
  before that value settles, the button starts a cycle, under 0.60; the value settles and
  starts a cycle under 0.70. The cycle started under 0.70 ends first, and the tables show
  its result. The cycle started under 0.60 ends next, the current parameter being 0.70:
  the tables then show the rows of the answer for 0.60.
\<close>

theorem stale_completion_overwrites:
  "map_option inflight (run sample_builtins mounted_page (butlast stale_trace))
     = Some [(2, fl (3 / 5), Spread)]
   \<and> map_option debouncedTarget (run sample_builtins mounted_page (butlast stale_trace))
       = Some (fl (7 / 10))
   \<and> map_option render (run sample_builtins mounted_page (butlast stale_trace))
       = Some (TablesView (JArr []) (JArr []) [mapPlayToRow (garbage_play (fl (7 / 10)))]
                 (JObj [(''Garbage'', JNum (Fin 1))]) \<lparr> limit = Fin 0, remaining = Fin 0 \<rparr>
                 \<lparr> cache_status = ''MISS'', ttl = Fin 0 \<rparr> (Some 30))
   \<and> map_option debouncedTarget (run sample_builtins mounted_page stale_trace)
       = Some (fl (7 / 10))
   \<and> map_option render (run sample_builtins mounted_page stale_trace)
       = Some (TablesView (JArr []) (JArr []) [mapPlayToRow (garbage_play (fl (3 / 5)))]
                 (JObj [(''Garbage'', JNum (Fin 1))]) \<lparr> limit = Fin 0, remaining = Fin 0 \<rparr>
                 \<lparr> cache_status = ''MISS'', ttl = Fin 0 \<rparr> (Some 40))
   \<and> mapPlayToRow (garbage_play (fl (3 / 5))) \<noteq> mapPlayToRow (garbage_play (fl (7 / 10)))"
  by (simp add: stale_run_before stale_run_final rows_differ stale_before_def stale_final_def
      render_def)

text \<open>
  C1, amended. The last response wins: nothing is compared when a cycle ends. After every
  sequence of events, for every cycle in flight, whatever the parameters it was started
  with and whatever the current ones, the end of that cycle with success replaces the
  data in the state (fire, watch, garbage, the counts, the diagnostics, the time of the
  last update) by its own result, clears \<open>loading\<close>, and leaves the parameters and
  \<open>err\<close> as they are. The page then shows this result, unless a message of an earlier
  failure still stands in \<open>err\<close>: then it goes on showing that message.
\<close>

theorem last_response_wins:
  assumes "run J s0 evs = Some s"
    and "(rid, tp, m) \<in> set (inflight s)"
    and "fetchReport J rep = Inr (data, rt, ch)"
    and "fetchGarbage J gar = Inr rows"
    and "data \<noteq> JNull"
  shows "case run J s0 (evs @ [Settled rid now ord rep gar]) of
           None \<Rightarrow> False
         | Some s' \<Rightarrow>
             fire s' = coalesce (opt_prop (get_prop data ''sections'') ''fire'') (JArr [])
             \<and> watch s' = coalesce (opt_prop (get_prop data ''sections'') ''watch'') (JArr [])
             \<and> garbage s' = rows
             \<and> byTier s' = coalesce (opt_prop (get_prop data ''summary'') ''by_tier'') (JObj [])
             \<and> rate s' = rt \<and> cache s' = ch \<and> lastUpdated s' = Some now
             \<and> loading s' = False \<and> err s' = err s
             \<and> metric s' = metric s \<and> target s' = target s
             \<and> debouncedTarget s' = debouncedTarget s
             \<and> render s'
                 = (case err s of
                      Some (c # cs) \<Rightarrow> ErrorView (c # cs)
                    | _ \<Rightarrow>
                        TablesView
                          (coalesce (opt_prop (get_prop data ''sections'') ''fire'') (JArr []))
                          (coalesce (opt_prop (get_prop data ''sections'') ''watch'') (JArr []))
                          rows
                          (coalesce (opt_prop (get_prop data ''summary'') ''by_tier'') (JObj []))
                          rt ch (Some now))"
proof -
  from assms(2) have en: "enabled s (Settled rid now ord rep gar)" by force
  have "run J s0 (evs @ [Settled rid now ord rep gar])
        = Some (settle J now ord rep gar
                  (s\<lparr> inflight := filter (\<lambda>r. fst r \<noteq> rid) (inflight s) \<rparr>))"
    using assms(1) en by (simp add: run_snoc step_def)
  then show ?thesis
    by (simp add: settle_fulfilled [OF assms(3-5)] render_def split: option.splits list.splits)
qed

theorem last_response_wins_witness:
  "run sample_builtins mounted_page (butlast stale_trace) = Some stale_before
   \<and> (2, fl (3 / 5), Spread) \<in> set (inflight stale_before)
   \<and> debouncedTarget stale_before = fl (7 / 10)
   \<and> fetchReport sample_builtins (report_response (fl (3 / 5)))
       = Inr (JObj [(''sections'', JObj [(''fire'', JArr []), (''watch'', JArr [])]),
                    (''summary'', JObj [(''by_tier'', JObj [(''Garbage'', JNum (Fin 1))])])],
              \<lparr> limit = Fin 0, remaining = Fin 0 \<rparr>, \<lparr> cache_status = ''MISS'', ttl = Fin 0 \<rparr>)
   \<and> fetchGarbage sample_builtins (edges_response (fl (3 / 5)))
       = Inr [mapPlayToRow (garbage_play (fl (3 / 5)))]
   \<and> (case run sample_builtins mounted_page
             (butlast stale_trace
              @ [Settled 2 40 ReportFirst (report_response (fl (3 / 5)))
                   (edges_response (fl (3 / 5)))]) of
         None \<Rightarrow> False
       | Some s' \<Rightarrow>
           garbage s' = [mapPlayToRow (garbage_play (fl (3 / 5)))]
           \<and> debouncedTarget s' = fl (7 / 10)
           \<and> render s'
               = TablesView (JArr []) (JArr []) [mapPlayToRow (garbage_play (fl (3 / 5)))]
                   (JObj [(''Garbage'', JNum (Fin 1))]) \<lparr> limit = Fin 0, remaining = Fin 0 \<rparr>
                   \<lparr> cache_status = ''MISS'', ttl = Fin 0 \<rparr> (Some 40))"
proof -
  note a = stale_run_before
  have b: "(2, fl (3 / 5), Spread) \<in> set (inflight stale_before)"
    by (simp add: stale_before_def)
  note c = fetchReport_ok [of sample_builtins "fl (3 / 5)"]
  note d = fetchGarbage_ok [of sample_builtins "fl (3 / 5)"]
  have e: "JObj [(''sections'', JObj [(''fire'', JArr []), (''watch'', JArr [])]),
                 (''summary'', JObj [(''by_tier'', JObj [(''Garbage'', JNum (Fin 1))])])] \<noteq> JNull"
    by simp
  have f: "debouncedTarget stale_before = fl (7 / 10)" "err stale_before = None"
    by (simp_all add: stale_before_def)
  from last_response_wins [OF a b c d e, of 40 ReportFirst] a b c d f show ?thesis
    by (simp add: coalesce_def opt_prop_def get_prop_def split: option.splits)
qed


text \<open>
  C7, as stated, fails. The tables show the rows of the first cycle. In the next cycle the
  call for the report is rejected first, by the network, and the call for the edges
  returns the status 503: the message surfaced is that of the first rejection, which
  names neither the endpoint nor the status; and the rows, still in the state, are no
  longer on the page, which is the message alone.
\<close>

theorem failed_cycle_first_rejection:
  "status_failure unavailable
   \<and> map_option render (run sample_builtins mounted_page (butlast (butlast failing_trace)))
       = Some (TablesView (JArr []) (JArr []) [mapPlayToRow (garbage_play (fl (13 / 20)))]
                 (JObj [(''Garbage'', JNum (Fin 1))]) \<lparr> limit = Fin 0, remaining = Fin 0 \<rparr>
                 \<lparr> cache_status = ''MISS'', ttl = Fin 0 \<rparr> (Some 10))
   \<and> map_option err (run sample_builtins mounted_page failing_trace)
       = Some (Some ''Failed to fetch'')
   \<and> map_option garbage (run sample_builtins mounted_page failing_trace)
       = Some [mapPlayToRow (garbage_play (fl (13 / 20)))]
   \<and> map_option render (run sample_builtins mounted_page failing_trace)
       = Some (ErrorView ''Failed to fetch'')"
  by (simp add: failing_run shown_before_failing failing_final_def render_def
      status_failure_def unavailable_def ok_def)

text \<open>
  C7, amended. A refresh cycle fails as a whole: if one of the two calls returns a status
  that is not a success, the cycle ends with the data in the state as before (the rows
  fire, watch and garbage, the counts, the diagnostics, the time of the last update),
  \<open>loading\<close> cleared and, in \<open>err\<close>, the message of the call rejected first. When that
  call is one that returned such a status, the message is \<open>WPP /report failed: status\<close>
  or \<open>WPP /best_edges (garbage) failed: status\<close>. The rows are kept in the state, not
  on the page: the page is the message alone (and the tables as they were, in the one case
  of an empty message).
\<close>

theorem failed_cycle_atomic:
  assumes "rid \<in> fst ` set (inflight s)"
    and "status_failure rep \<or> status_failure gar"
  shows "case step J s (Settled rid now ord rep gar) of
           None \<Rightarrow> False
         | Some s' \<Rightarrow>
             fire s' = fire s \<and> watch s' = watch s \<and> garbage s' = garbage s
             \<and> byTier s' = byTier s \<and> rate s' = rate s \<and> cache s' = cache s
             \<and> lastUpdated s' = lastUpdated s \<and> loading s' = False
             \<and> err s' \<noteq> None
             \<and> (\<forall>e. fetchReport J rep = Inl e \<and> (isl (fetchGarbage J gar) \<longrightarrow> ord = ReportFirst)
                   \<longrightarrow> err s' = Some e)
             \<and> (\<forall>e. fetchGarbage J gar = Inl e \<and> (isl (fetchReport J rep) \<longrightarrow> ord = GarbageFirst)
                   \<longrightarrow> err s' = Some e)
             \<and> (\<forall>r. rep = Responded r \<and> \<not> ok r \<and> (isl (fetchGarbage J gar) \<longrightarrow> ord = ReportFirst)
                   \<longrightarrow> err s' = Some (''WPP /report failed: '' @ dec_digits (status r))
                       \<and> render s' = ErrorView (''WPP /report failed: '' @ dec_digits (status r)))
             \<and> (\<forall>r. gar = Responded r \<and> \<not> ok r \<and> (isl (fetchReport J rep) \<longrightarrow> ord = GarbageFirst)
                   \<longrightarrow> err s' = Some (''WPP /best_edges (garbage) failed: '' @ dec_digits (status r))
                       \<and> render s'
                           = ErrorView (''WPP /best_edges (garbage) failed: '' @ dec_digits (status r)))
             \<and> render s'
                 = (case err s' of
                      Some (c # cs) \<Rightarrow> ErrorView (c # cs)
                    | _ \<Rightarrow>
                        TablesView (fire s) (watch s) (garbage s) (byTier s) (rate s) (cache s)
                          (lastUpdated s))"
proof -
  let ?s0 = "s\<lparr> inflight := filter (\<lambda>r. fst r \<noteq> rid) (inflight s) \<rparr>"
  from assms(2) have "isl (fetchReport J rep) \<or> isl (fetchGarbage J gar)"
    using status_failure_report status_failure_garbage by blast
  then obtain e where e: "promise_all ord (fetchReport J rep) (fetchGarbage J gar) = Inl e"
    using promise_all_rejects by blast
  have st: "step J s (Settled rid now ord rep gar) = Some (?s0\<lparr> err := Some e, loading := False \<rparr>)"
    using assms(1) settle_rejected [OF e] by (simp add: step_def)
  have first: "e = e'"
    if "fetchReport J rep = Inl e'" "isl (fetchGarbage J gar) \<longrightarrow> ord = ReportFirst" for e'
  proof -
    from that(2) have b: "\<not> isl (fetchGarbage J gar) \<or> ord = ReportFirst" by blast
    from promise_all_first [OF that(1) b] e show ?thesis by simp
  qed
  have second: "e = e'"
    if "fetchGarbage J gar = Inl e'" "isl (fetchReport J rep) \<longrightarrow> ord = GarbageFirst" for e'
  proof -
    from that(2) have b: "\<not> isl (fetchReport J rep) \<or> ord = GarbageFirst" by blast
    from promise_all_second [OF that(1) b] e show ?thesis by simp
  qed
  have rep_msg: "e = ''WPP /report failed: '' @ dec_digits (status r)"
    if "rep = Responded r" "\<not> ok r" "isl (fetchGarbage J gar) \<longrightarrow> ord = ReportFirst" for r
    using first [OF fetchReport_status_failure [OF that(1,2)] that(3)] .
  have gar_msg: "e = ''WPP /best_edges (garbage) failed: '' @ dec_digits (status r)"
    if "gar = Responded r" "\<not> ok r" "isl (fetchReport J rep) \<longrightarrow> ord = GarbageFirst" for r
    using second [OF fetchGarbage_status_failure [OF that(1,2)] that(3)] .
  have shown: "render (?s0\<lparr> err := Some e, loading := False \<rparr>)
      = (case Some e of
           Some (c # cs) \<Rightarrow> ErrorView (c # cs)
         | _ \<Rightarrow>
             TablesView (fire s) (watch s) (garbage s) (byTier s) (rate s) (cache s)
               (lastUpdated s))"
    by (simp add: render_def split: list.splits)
  show ?thesis
    unfolding st using first second rep_msg gar_msg shown
    by (auto simp: render_def)
qed


theorem failed_cycle_atomic_witness:
  "1 \<in> fst ` set (inflight failing_before)
   \<and> status_failure unavailable
   \<and> (case step sample_builtins failing_before
             (Settled 1 20 GarbageFirst unavailable (edges_response (fl (13 / 20)))) of
         None \<Rightarrow> False
       | Some s' \<Rightarrow>
           garbage s' = [mapPlayToRow (garbage_play (fl (13 / 20)))]
           \<and> lastUpdated s' = Some 10
           \<and> err s' = Some ''WPP /report failed: 503''
           \<and> render s' = ErrorView ''WPP /report failed: 503'')"
proof -
  have a: "1 \<in> fst ` set (inflight failing_before)"
    by (simp add: failing_before_def)
  have b: "status_failure unavailable"
    by (simp add: status_failure_def unavailable_def ok_def)
  have c: "unavailable
      = Responded \<lparr> status = 503, headers_get = (\<lambda>h. None), body = Inl ''Unexpected token'' \<rparr>"
    by (simp add: unavailable_def)
  have d: "\<not> ok \<lparr> status = 503, headers_get = (\<lambda>h. None), body = Inl ''Unexpected token'' \<rparr>"
    by (simp add: ok_def)
  have e: "\<not> isl (fetchGarbage sample_builtins (edges_response (fl (13 / 20))))"
    by (simp add: fetchGarbage_ok)
  have f: "dec_digits 503 = ''503''"
    by code_simp
  have g: "garbage failing_before = [mapPlayToRow (garbage_play (fl (13 / 20)))]"
    "lastUpdated failing_before = Some 10"
    by (simp_all add: failing_before_def failing_final_def)
  from failed_cycle_atomic [where rid = 1 and s = failing_before and rep = unavailable
      and gar = "edges_response (fl (13 / 20))" and J = sample_builtins and now = 20
      and ord = GarbageFirst] a b c d e f g
  show ?thesis
    by (auto split: option.splits)
qed

end
